theory Spec2Isabelle
  imports Main "HOL-Library.AList"
begin

section \<open>Strings as the program uses them\<close>

text \<open>
  JavaScript strings are modelled as \<^typ>\<open>string\<close> (lists of 8-bit characters), so the
  model covers the code units below 256. The white space of \<open>String.prototype.trim\<close> and
  of the regular expression class \<open>\s\<close> in that range is TAB, LF, VT, FF, CR, SPACE and
  NBSP.
\<close>

definition is_ws :: "char \<Rightarrow> bool" where
  "is_ws c = (c = CHR 0x09 \<or> c = CHR 0x0A \<or> c = CHR 0x0B \<or> c = CHR 0x0C \<or> c = CHR 0x0D
              \<or> c = CHR 0x20 \<or> c = CHR 0xA0)"

definition trim :: "string \<Rightarrow> string" where
  "trim s = rev (dropWhile is_ws (rev (dropWhile is_ws s)))"

definition startsWith :: "string \<Rightarrow> string \<Rightarrow> bool" where
  "startsWith s p = (take (length p) s = p)"

definition endsWith :: "string \<Rightarrow> string \<Rightarrow> bool" where
  "endsWith s p = (length p \<le> length s \<and> drop (length s - length p) s = p)"

text \<open>
  \<open>s.split(sep)\<close> for a non-empty separator string: the pieces between the occurrences
  of \<open>sep\<close>, found from left to right. The counter skips the rest of a separator that
  has just been recognised.
\<close>

fun split_go :: "string \<Rightarrow> nat \<Rightarrow> string \<Rightarrow> string \<Rightarrow> string list" where
  "split_go sep k cur [] = [rev cur]"
| "split_go sep (Suc k) cur (c # cs) = split_go sep k cur cs"
| "split_go sep 0 cur (c # cs) =
     (if startsWith (c # cs) sep then rev cur # split_go sep (length sep - 1) [] cs
      else split_go sep 0 (c # cur) cs)"

definition split :: "string \<Rightarrow> string \<Rightarrow> string list" where
  "split s sep = split_go sep 0 [] s"

text \<open>\<open>xs.join(sep)\<close> on an array of strings.\<close>

fun join :: "string list \<Rightarrow> string \<Rightarrow> string" where
  "join [] sep = []"
| "join [x] sep = x"
| "join (x # y # ys) sep = x @ sep @ join (y # ys) sep"

section \<open>The FSM primitive (common/fsm.mjs)\<close>

text \<open>
  A rule is \<open>{ from, to }\<close>. \<open>to\<close> is the second piece of the rule string split at
  \<open>->\<close>; it is \<open>undefined\<close> (\<open>None\<close>) when the string has no arrow. The table is a
  JavaScript \<open>Map\<close>: an association list in insertion order, a repeated key keeps its place.
\<close>

record rule =
  "from" :: "string list"
  to :: "string option"

type_synonym fsm = "(string \<times> rule) list"

definition parse_rule :: "string \<Rightarrow> rule" where
  "parse_rule r =
     (let parts = map trim (split r ''->'');
          fromStr = hd parts
      in \<lparr> from = map trim (split fromStr '',''),
           to = (if length parts > 1 then Some (parts ! 1) else None) \<rparr>)"

definition FSM :: "(string \<times> string) list \<Rightarrow> fsm" where
  "FSM transitions =
     fold (\<lambda>(action, r) m. AList.update action (parse_rule r) m) transitions []"

datatype fsm_result =
    Success string "string option"
  | Failure string string

definition transition :: "fsm \<Rightarrow> string \<Rightarrow> string \<Rightarrow> fsm_result" where
  "transition m currentState action =
     (case map_of m action of
        None \<Rightarrow> Failure currentState (''Unknown action: '' @ action)
      | Some r \<Rightarrow>
          if currentState \<notin> set (from r)
          then Failure currentState
                 (''Cannot '' @ action @ '' from '' @ [CHR 0x27] @ currentState @ [CHR 0x27]
                  @ ''. Valid: '' @ join (from r) '', '')
          else Success currentState (to r))"

definition validActions :: "fsm \<Rightarrow> string \<Rightarrow> string list" where
  "validActions m currentState = map fst (filter (\<lambda>(action, r). currentState \<in> set (from r)) m)"

section \<open>The session state machine (plugins/agent/models/session.mjs)\<close>

definition PENDING :: string where "PENDING = ''pending''"
definition RUNNING :: string where "RUNNING = ''running''"
definition SUCCESS :: string where "SUCCESS = ''success''"
definition ERROR :: string where "ERROR = ''error''"
definition PAUSED :: string where "PAUSED = ''paused''"
definition STOPPED :: string where "STOPPED = ''stopped''"

definition sessionFSM :: fsm where
  "sessionFSM = FSM
     [(''pause'', ''pending,running -> paused''),
      (''resume'', ''paused -> pending''),
      (''retry'', ''success,error -> pending''),
      (''stop'', ''pending,running,paused -> stopped''),
      (''run'', ''stopped -> running''),
      (''start'', ''pending -> running''),
      (''complete'', ''running -> success''),
      (''fail'', ''running -> error'')]"

text \<open>
  The table of the specification (section 4.3), in the specification's order: action,
  from-set, to-state. It is written from the specification, to be compared with
  \<^const>\<open>sessionFSM\<close>, which is built as the source builds it.
\<close>

definition spec_table :: "(string \<times> string list \<times> string) list" where
  "spec_table =
     [(''start'', [''pending''], ''running''),
      (''complete'', [''running''], ''success''),
      (''fail'', [''running''], ''error''),
      (''pause'', [''pending'', ''running''], ''paused''),
      (''resume'', [''paused''], ''pending''),
      (''stop'', [''pending'', ''running'', ''paused''], ''stopped''),
      (''run'', [''stopped''], ''running''),
      (''retry'', [''success'', ''error''], ''pending'')]"

section \<open>The durable collection store (common/yaml-db.mjs)\<close>

text \<open>
  A collection is rooted at one directory (the non-glob case of the constructor). A file of
  that directory is named by its stem and its extension, \<open><id>.yml\<close> or \<open><id>.yaml\<close>.
  A file holds the document that \<open>fromYaml\<close> reads from it, or \<open>None\<close> when
  \<open>fromYaml\<close> throws on its text, and its modification time. The directory is an
  association list in the order of \<open>readdirSync\<close>; \<open>nowMs\<close> is the time a write stamps.
  The stored documents are YAML mappings, that is, truthy objects of type \<open>'v\<close>.
\<close>

datatype ext = Yml | Yaml

type_synonym path = "string \<times> ext"

record 'v yfile =
  data :: "'v option"
  mtimeMs :: nat

record 'v filesys =
  files :: "(path \<times> 'v yfile) list"
  nowMs :: nat

definition existsSync :: "'v filesys \<Rightarrow> path \<Rightarrow> bool" where
  "existsSync fs p = (map_of (files fs) p \<noteq> None)"

definition unlinkSync :: "'v filesys \<Rightarrow> path \<Rightarrow> 'v filesys" where
  "unlinkSync fs p = fs\<lparr>files := AList.delete p (files fs)\<rparr>"

definition writeYaml :: "path \<Rightarrow> 'v \<Rightarrow> 'v filesys \<Rightarrow> 'v filesys" where
  "writeYaml p d fs =
     fs\<lparr>files := AList.update p \<lparr>data = Some d, mtimeMs = nowMs fs\<rparr> (files fs)\<rparr>"

text \<open>
  The fields of \<open>YamlCollection\<close>. The three maps are JavaScript \<open>Map\<close>s and the two sets
  are \<open>Set\<close>s, all iterated in insertion order.
\<close>

record 'v collection =
  items :: "(string \<times> 'v) list"
  filePaths :: "(string \<times> path) list"
  lastReadTs :: "(string \<times> nat) list"
  dirty :: "string list"
  deleted :: "string list"
  hasChanges :: bool

definition new_collection :: "'v collection" where
  "new_collection = \<lparr>items = [], filePaths = [], lastReadTs = [], dirty = [], deleted = [],
                      hasChanges = False\<rparr>"

definition set_add :: "'a \<Rightarrow> 'a list \<Rightarrow> 'a list" where
  "set_add x xs = (if x \<in> set xs then xs else xs @ [x])"

definition getFilePath :: "'v collection \<Rightarrow> string \<Rightarrow> path" where
  "getFilePath c ident = (case map_of (filePaths c) ident of Some p \<Rightarrow> p | None \<Rightarrow> (ident, Yml))"

definition scanFiles :: "'v filesys \<Rightarrow> path list" where
  "scanFiles fs = map fst (files fs)"

text \<open>
  \<open>_loadFile\<close>: \<open>statSync\<close> throws on a missing file and \<open>fromYaml\<close> on an unreadable
  one; the \<open>catch\<close> then leaves every map as it was, \<open>filePaths\<close> included.
\<close>

definition loadFile :: "string \<Rightarrow> path \<Rightarrow> 'v filesys \<Rightarrow> 'v collection \<Rightarrow> 'v collection" where
  "loadFile ident p fs c =
     (case map_of (files fs) p of
        None \<Rightarrow> c
      | Some f \<Rightarrow>
          let lastRead = (case map_of (lastReadTs c) ident of Some t \<Rightarrow> t | None \<Rightarrow> 0)
          in if mtimeMs f > lastRead
             then (case data f of
                     None \<Rightarrow> c
                   | Some d \<Rightarrow> c\<lparr>items := AList.update ident d (items c),
                                 lastReadTs := AList.update ident (mtimeMs f) (lastReadTs c),
                                 filePaths := AList.update ident p (filePaths c)\<rparr>)
             else c\<lparr>filePaths := AList.update ident p (filePaths c)\<rparr>)"

definition forget :: "string \<Rightarrow> 'v collection \<Rightarrow> 'v collection" where
  "forget ident c = c\<lparr>items := AList.delete ident (items c),
                       lastReadTs := AList.delete ident (lastReadTs c),
                       filePaths := AList.delete ident (filePaths c)\<rparr>"

definition loadAll :: "'v filesys \<Rightarrow> 'v collection \<Rightarrow> 'v collection" where
  "loadAll fs c =
     (let c1 = c\<lparr>dirty := [], deleted := [], hasChanges := False\<rparr>;
          fileList = scanFiles fs;
          c2 = fold (\<lambda>p. loadFile (fst p) p fs) fileList c1;
          currentFiles = map fst fileList
      in fold forget (filter (\<lambda>ident. ident \<notin> set currentFiles) (map fst (items c2))) c2)"

definition get_coll :: "string \<Rightarrow> 'v filesys \<Rightarrow> 'v collection \<Rightarrow> 'v option \<times> 'v collection" where
  "get_coll ident fs c =
     (case map_of (filePaths c) ident of
        Some cachedPath \<Rightarrow> (let c' = loadFile ident cachedPath fs c in (map_of (items c') ident, c'))
      | None \<Rightarrow>
          if existsSync fs (ident, Yml)
          then (let c' = loadFile ident (ident, Yml) fs c in (map_of (items c') ident, c'))
          else if existsSync fs (ident, Yaml)
          then (let c' = loadFile ident (ident, Yaml) fs c in (map_of (items c') ident, c'))
          else (None, c))"

definition set_coll :: "string \<Rightarrow> 'v \<Rightarrow> 'v collection \<Rightarrow> 'v collection" where
  "set_coll ident d c =
     c\<lparr>items := AList.update ident d (items c),
       dirty := set_add ident (dirty c),
       deleted := removeAll ident (deleted c),
       hasChanges := True\<rparr>"

definition delete_coll :: "string \<Rightarrow> 'v collection \<Rightarrow> bool \<times> 'v collection" where
  "delete_coll ident c =
     (if map_of (items c) ident \<noteq> None \<or> map_of (filePaths c) ident \<noteq> None
      then (True, c\<lparr>items := AList.delete ident (items c),
                    deleted := set_add ident (deleted c),
                    dirty := removeAll ident (dirty c),
                    hasChanges := True\<rparr>)
      else (False, c))"

definition list_coll :: "'v filesys \<Rightarrow> string list" where
  "list_coll fs = map fst (scanFiles fs)"

definition getAll :: "'v filesys \<Rightarrow> 'v collection \<Rightarrow> 'v list \<times> 'v collection" where
  "getAll fs c =
     fold (\<lambda>p (results, c0).
             let c' = loadFile (fst p) p fs c0
             in (case map_of (items c') (fst p) of
                   Some d \<Rightarrow> (results @ [d], c')
                 | None \<Rightarrow> (results, c')))
          (scanFiles fs) ([], c)"

text \<open>
  \<open>save\<close>: nothing at all unless \<open>hasChanges\<close>; otherwise the tombstoned files are
  unlinked, then the dirty records still present in \<open>items\<close> are written.
\<close>

definition save_deleted :: "string \<Rightarrow> 'v collection \<times> 'v filesys \<Rightarrow> 'v collection \<times> 'v filesys" where
  "save_deleted ident = (\<lambda>(c, fs).
     let filePath = getFilePath c ident;
         fs' = (if existsSync fs filePath then unlinkSync fs filePath else fs)
     in (c\<lparr>filePaths := AList.delete ident (filePaths c)\<rparr>, fs'))"

definition save_dirty :: "string \<Rightarrow> 'v collection \<times> 'v filesys \<Rightarrow> 'v collection \<times> 'v filesys" where
  "save_dirty ident = (\<lambda>(c, fs).
     case map_of (items c) ident of
       None \<Rightarrow> (c, fs)
     | Some d \<Rightarrow>
         let filePath = getFilePath c ident
         in (c\<lparr>filePaths := AList.update ident filePath (filePaths c)\<rparr>, writeYaml filePath d fs))"

definition save :: "'v collection \<times> 'v filesys \<Rightarrow> 'v collection \<times> 'v filesys" where
  "save = (\<lambda>(c, fs).
     if \<not> hasChanges c then (c, fs)
     else
       let (c1, fs1) = fold save_deleted (deleted c) (c, fs);
           c2 = c1\<lparr>deleted := []\<rparr>;
           (c3, fs3) = fold save_dirty (dirty c2) (c2, fs1)
       in (c3\<lparr>dirty := [], hasChanges := False\<rparr>, fs3))"

section \<open>Sessions (plugins/agent/models/session.mjs)\<close>

text \<open>
  Dynamically typed values of the program (tool-private state, tool results, allowlist rule
  values, per-session tool options). Numbers are the integers among the JavaScript numbers.
\<close>

datatype jsval =
    JUndefined
  | JNull
  | JBool bool
  | JNum int
  | JStr string
  | JArr "jsval list"
  | JObj "(string \<times> jsval) list"

fun truthy :: "jsval \<Rightarrow> bool" where
  "truthy JUndefined = False"
| "truthy JNull = False"
| "truthy (JBool b) = b"
| "truthy (JNum n) = (n \<noteq> 0)"
| "truthy (JStr s) = (s \<noteq> [])"
| "truthy (JArr xs) = True"
| "truthy (JObj kvs) = True"

text \<open>\<open>v?.k\<close>: the own property \<open>k\<close> of an object, \<open>undefined\<close> for every other value.\<close>

fun opt_prop :: "jsval \<Rightarrow> string \<Rightarrow> jsval" where
  "opt_prop (JObj kvs) k = (case map_of kvs k of Some x \<Rightarrow> x | None \<Rightarrow> JUndefined)"
| "opt_prop v k = JUndefined"

text \<open>\<open>a || b\<close> on values.\<close>

definition js_or :: "jsval \<Rightarrow> jsval \<Rightarrow> jsval" where
  "js_or a b = (if truthy a then a else b)"

record tool_call =
  tc_id :: string
  tc_name :: string
  tc_arguments :: string

record message =
  role :: string
  content :: "string option"
  tool_calls :: "tool_call list option"
  tool_call_id :: "string option"
  name :: "string option"
  timestamp :: "string option"
  finish_reason :: "string option"

record last_transition =
  lt_action :: string
  lt_from :: string
  lt_to :: "string option"
  lt_timestamp :: string

text \<open>An entry of \<open>metadata.tools\<close>: a tool name, or a one-key object \<open>{name: options}\<close>.\<close>

datatype tool_item = ToolName string | ToolOptions string jsval

record metadata =
  status :: "string option"
  lastTransition :: "last_transition option"
  model :: "string option"
  tools :: "tool_item list"
  usage :: jsval

record session_spec =
  system_prompt :: "string option"
  messages :: "message list"

record session =
  metadata :: metadata
  spec :: session_spec

type_synonym store = "session collection \<times> session filesys"

text \<open>\<open>SessionModel.load\<close> and \<open>SessionModel.save\<close>.\<close>

definition SessionModel_load :: "string \<Rightarrow> store \<Rightarrow> session option \<times> store" where
  "SessionModel_load ident = (\<lambda>(c, fs). let (r, c') = get_coll ident fs c in (r, (c', fs)))"

definition SessionModel_save :: "string \<Rightarrow> session \<Rightarrow> store \<Rightarrow> store" where
  "SessionModel_save ident d = (\<lambda>(c, fs). save (set_coll ident d c, fs))"

datatype transition_result =
    TransitionOk string "string option"
  | TransitionFailed "string option" string

text \<open>
  \<open>SessionModel.transition(id, action)\<close>; \<open>ts\<close> is \<open>new Date().toISOString()\<close>.
  \<open>session.metadata?.status || 'pending'\<close> reads a missing or empty status as pending.
\<close>

definition currentState_of :: "session \<Rightarrow> string" where
  "currentState_of s = (case status (metadata s) of
                           None \<Rightarrow> PENDING
                         | Some st \<Rightarrow> if st = [] then PENDING else st)"

definition SessionModel_transition ::
  "string \<Rightarrow> string \<Rightarrow> string \<Rightarrow> store \<Rightarrow> transition_result \<times> store" where
  "SessionModel_transition ident action ts = (\<lambda>(c, fs).
     let st0 = (loadAll fs c, fs);
         (loaded, st1) = SessionModel_load ident st0
     in case loaded of
          None \<Rightarrow> (TransitionFailed None (''Session '' @ ident @ '' not found''), st1)
        | Some s \<Rightarrow>
            let currentState = currentState_of s
            in (case transition sessionFSM currentState action of
                  Failure fr err \<Rightarrow> (TransitionFailed (Some currentState) err, st1)
                | Success fr t \<Rightarrow>
                    let s' = s\<lparr>metadata := (metadata s)\<lparr>status := t,
                               lastTransition := Some \<lparr>lt_action = action, lt_from = fr,
                                                       lt_to = t, lt_timestamp = ts\<rparr>\<rparr>\<rparr>;
                        st2 = SessionModel_save ident s' st1;
                        st3 = save st2
                    in (TransitionOk fr t, st3)))"

text \<open>A session file in status success, for the examples of the session state machine.\<close>

definition example_session :: "string \<Rightarrow> message list \<Rightarrow> session" where
  "example_session st ms =
     \<lparr>metadata = \<lparr>status = Some st, lastTransition = None, model = Some ''xai:mock'',
                  tools = [], usage = JUndefined\<rparr>,
      spec = \<lparr>system_prompt = Some ''You are an echo.'', messages = ms\<rparr>\<rparr>"

definition example_fs :: "string \<Rightarrow> message list \<Rightarrow> session filesys" where
  "example_fs st ms =
     \<lparr>files = [((''1'', Yml), \<lparr>data = Some (example_session st ms), mtimeMs = 5\<rparr>)], nowMs = 9\<rparr>"

text \<open>
  The operations of a collection as a caller issues them, each taking the collection and the
  file system to their next values (the returned values are dropped).
\<close>

datatype 'v coll_op =
    OpGet string
  | OpSet string 'v
  | OpDelete string
  | OpList
  | OpGetAll
  | OpLoadAll
  | OpSave

fun apply_op :: "'v coll_op \<Rightarrow> 'v collection \<times> 'v filesys \<Rightarrow> 'v collection \<times> 'v filesys" where
  "apply_op (OpGet ident) (c, fs) = (snd (get_coll ident fs c), fs)"
| "apply_op (OpSet ident d) (c, fs) = (set_coll ident d c, fs)"
| "apply_op (OpDelete ident) (c, fs) = (snd (delete_coll ident c), fs)"
| "apply_op OpList (c, fs) = (c, fs)"
| "apply_op OpGetAll (c, fs) = (snd (getAll fs c), fs)"
| "apply_op OpLoadAll (c, fs) = (loadAll fs c, fs)"
| "apply_op OpSave (c, fs) = save (c, fs)"

fun is_set_or_delete :: "'v coll_op \<Rightarrow> bool" where
  "is_set_or_delete (OpSet ident d) = True"
| "is_set_or_delete (OpDelete ident) = True"
| "is_set_or_delete other = False"

text \<open>
  Every path that a collection records for an id is a file of that id: \<open>_loadFile\<close> is
  called with the path of a scanned file and its stem, or with \<open><id>.yml\<close> and
  \<open><id>.yaml\<close>, and \<open>save\<close> records the path it wrote.
\<close>

definition paths_ok :: "'v collection \<Rightarrow> bool" where
  "paths_ok c = (\<forall>(ident, p) \<in> set (filePaths c). fst p = ident)"

text \<open>A directory with the single record file \<open>1.yml\<close>, for the examples of the store.\<close>

definition example_dir :: "nat filesys" where
  "example_dir = \<lparr>files = [((''1'', Yml), \<lparr>data = Some 7, mtimeMs = 5\<rparr>)], nowMs = 9\<rparr>"

text \<open>
  The loop of \<open>clean()\<close> (core plugin, tool \<open>clean\<close>, "Delete DB files") for one
  collection: every id that \<open>list()\<close> finds in the directory is deleted, then the
  collection is saved. The tool then reports \<open>All temporary files removed from disk.\<close>
\<close>

definition clean_collection :: "'v collection \<times> 'v filesys \<Rightarrow> 'v collection \<times> 'v filesys" where
  "clean_collection = (\<lambda>(c, fs).
     save (fold (\<lambda>ident c0. snd (delete_coll ident c0)) (list_coll fs) c, fs))"

section \<open>The host-container bridge (plugins/agent/controllers/host-container-bridge.mjs)\<close>

definition IDLE :: string where "IDLE = ''idle''"
definition FAILURE :: string where "FAILURE = ''failure''"

text \<open>
  The arguments of a command are the array of the remaining tokens, or whatever value an
  alias or a tool call supplies instead (an object of named arguments).
\<close>

datatype cmd_args = ArgList "string list" | ArgObj jsval

text \<open>
  \<open>globals.toolCallStates\<close>: tool call id to \<open>{status, state, context, externalData}\<close>;
  \<open>externalData\<close> is \<open>undefined\<close> until something injects it.
\<close>

record tool_call_entry =
  e_status :: string
  e_state :: jsval
  e_context_sessionId :: string
  e_context_toolCallId :: string
  e_externalData :: jsval

type_synonym tool_call_states = "(string \<times> tool_call_entry) list"

text \<open>The context object a handler is called with; absent fields are \<open>undefined\<close>.\<close>

record tool_ctx =
  ctx_sessionId :: jsval
  ctx_toolCallId :: jsval
  ctx_state :: jsval
  ctx_externalData :: jsval
  ctx_procId :: jsval

text \<open>
  A handler is a function of the program's plugins. It returns a value or throws, emits log
  messages meanwhile, and may route messages through the bridge, which can touch the tool
  call states (an approval request marks the entry as awaiting approval).
\<close>

datatype handler_outcome = Returns jsval | Throws string

type_synonym handler =
  "cmd_args \<Rightarrow> tool_ctx \<Rightarrow> tool_call_states \<Rightarrow> handler_outcome \<times> string list \<times> tool_call_states"

type_synonym registry = "string \<Rightarrow> handler option"

text \<open>
  What an alias function returns when it matches: \<open>{name, args}\<close>. A tool definition
  carries its \<open>function.name\<close> and the metadata the bridge reads. A plugin's \<open>definition\<close>
  is an array of tool definitions, or something else (\<open>None\<close>); the plugins are listed in
  registration order.
\<close>

record alias_match =
  am_name :: string
  am_args :: cmd_args

record tool_def =
  fn_name :: string
  requiresHostExecution :: bool
  localCommand :: bool
  humanOnly :: bool
  alias_fn :: "(string list \<Rightarrow> alias_match option) option"

type_synonym plugins = "tool_def list option list"

fun findToolDefinition :: "plugins \<Rightarrow> string \<Rightarrow> tool_def option" where
  "findToolDefinition [] toolName = None"
| "findToolDefinition (None # ps) toolName = findToolDefinition ps toolName"
| "findToolDefinition (Some def # ps) toolName =
     (case find (\<lambda>t. fn_name t = toolName) def of
        Some t \<Rightarrow> Some t
      | None \<Rightarrow> findToolDefinition ps toolName)"

record tool_call_msg =
  msg_toolCallId :: string
  msg_toolName :: string
  msg_args :: cmd_args
  msg_sessionId :: string

text \<open>
  \<open>result.status\<close> on the value a handler returned: reading a property of \<open>undefined\<close> or
  \<open>null\<close> throws a TypeError (its text is the engine's).
\<close>

definition type_error_text :: "string \<Rightarrow> string" where
  "type_error_text k = ''Cannot read properties of undefined (reading '' @ [CHR 0x27] @ k @ [CHR 0x27] @ '')''"

fun get_prop :: "jsval \<Rightarrow> string \<Rightarrow> string + jsval" where
  "get_prop JUndefined k = Inl (type_error_text k)"
| "get_prop JNull k = Inl (type_error_text k)"
| "get_prop v k = Inr (opt_prop v k)"

definition failure_result :: "string \<Rightarrow> jsval" where
  "failure_result msg = JObj [(''status'', JStr FAILURE), (''error'', JStr msg)]"

text \<open>
  \<open>executeToolLocally(toolName, args, context)\<close>; \<open>toolCallId\<close> is
  \<open>context.toolCallId\<close>, the key of the entry.
\<close>

definition executeToolLocally ::
  "registry \<Rightarrow> string \<Rightarrow> cmd_args \<Rightarrow> tool_ctx \<Rightarrow> string \<Rightarrow> tool_call_states \<Rightarrow> jsval \<times> tool_call_states" where
  "executeToolLocally reg toolName args context toolCallId tcs =
     (case reg toolName of
        None \<Rightarrow> (failure_result (''Tool '' @ toolName @ '' not found''), tcs)
      | Some h \<Rightarrow>
          (case h args context tcs of
             (Throws msg, logs, tcs1) \<Rightarrow>
               (failure_result (''Tool execution error: '' @ msg), AList.delete toolCallId tcs1)
           | (Returns result, logs, tcs1) \<Rightarrow>
               (case get_prop result ''status'' of
                  Inl msg \<Rightarrow>
                    (failure_result (''Tool execution error: '' @ msg), AList.delete toolCallId tcs1)
                | Inr st \<Rightarrow>
                    if st = JStr RUNNING
                    then (case map_of tcs1 toolCallId of
                            Some toolCallEntry \<Rightarrow>
                              (result,
                               AList.update toolCallId
                                 (toolCallEntry\<lparr>e_state := js_or (opt_prop result ''state'') (e_state toolCallEntry),
                                                e_status := RUNNING\<rparr>) tcs1)
                          | None \<Rightarrow> (result, tcs1))
                    else (result, AList.delete toolCallId tcs1))))"

text \<open>
  \<open>handleToolCall(message, context)\<close>. \<open>isContainer\<close> tells the child from the host;
  \<open>sendToHost\<close> is the round trip over the socket, which answers or throws.
\<close>

definition handleToolCall ::
  "bool \<Rightarrow> plugins \<Rightarrow> registry \<Rightarrow> (tool_call_msg \<Rightarrow> handler_outcome) \<Rightarrow> tool_call_msg \<Rightarrow> tool_ctx
     \<Rightarrow> tool_call_states \<Rightarrow> handler_outcome \<times> tool_call_states" where
  "handleToolCall isContainer pl reg sendToHost message context tcs =
     (let toolCallId = msg_toolCallId message;
          (toolCallEntry, tcs0) =
             (case map_of tcs toolCallId of
                Some e \<Rightarrow> (e, tcs)
              | None \<Rightarrow>
                  (let e = \<lparr>e_status = IDLE, e_state = JObj [],
                            e_context_sessionId = msg_sessionId message,
                            e_context_toolCallId = toolCallId, e_externalData = JUndefined\<rparr>
                   in (e, AList.update toolCallId e tcs)));
          requiresHost = (case findToolDefinition pl (msg_toolName message) of
                            Some toolDef \<Rightarrow> requiresHostExecution toolDef
                          | None \<Rightarrow> False)
      in if isContainer \<and> requiresHost
         then (sendToHost message, tcs0)
         else (let (r, tcs') =
                     executeToolLocally reg (msg_toolName message) (msg_args message)
                       (context\<lparr>ctx_sessionId := JStr (msg_sessionId message),
                                ctx_toolCallId := JStr toolCallId,
                                ctx_state := e_state toolCallEntry,
                                ctx_externalData := e_externalData toolCallEntry\<rparr>)
                       toolCallId tcs0
               in (Returns r, tcs')))"

text \<open>
  \<open>handleApprovalResponse\<close> in the child: the choice is injected as \<open>externalData\<close> of the
  entry and the session is resumed; without an entry nothing happens.
\<close>

definition handleApprovalResponse ::
  "string \<Rightarrow> jsval \<Rightarrow> jsval \<Rightarrow> string \<Rightarrow> tool_call_states \<times> store \<Rightarrow> tool_call_states \<times> store" where
  "handleApprovalResponse toolCallId choice explanation ts = (\<lambda>(tcs, st).
     case map_of tcs toolCallId of
       None \<Rightarrow> (tcs, st)
     | Some toolCallEntry \<Rightarrow>
         (AList.update toolCallId
            (toolCallEntry\<lparr>e_externalData :=
               JObj [(''approvalReceived'', JBool True), (''choice'', choice),
                     (''explanation'', explanation)]\<rparr>) tcs,
          snd (SessionModel_transition (e_context_sessionId toolCallEntry) ''resume'' ts st)))"

text \<open>
  Handlers for the examples: one that answers \<open>{status: 'running', state: S}\<close>; one that
  waits for an approval in a second phase and then reports the state and the external data
  it was called with; one that throws.
\<close>

definition running_handler :: "jsval \<Rightarrow> handler" where
  "running_handler S = (\<lambda>args context tcs.
     (Returns (JObj [(''status'', JStr ''running''), (''state'', S)]), [], tcs))"

definition two_phase_handler :: handler where
  "two_phase_handler = (\<lambda>args context tcs.
     if truthy (opt_prop (ctx_externalData context) ''approvalReceived'')
     then (Returns (JObj [(''status'', JStr ''success''),
                          (''result'', JArr [ctx_state context, ctx_externalData context])]), [], tcs)
     else (Returns (JObj [(''status'', JStr ''running''),
                          (''state'', JObj [(''phase'', JStr ''awaiting_approval'')])]), [], tcs))"

definition throwing_handler :: handler where
  "throwing_handler = (\<lambda>args context tcs. (Throws ''boom'', [], tcs))"

definition not_connected :: "tool_call_msg \<Rightarrow> handler_outcome" where
  "not_connected = (\<lambda>m. Throws ''Not connected to host'')"

definition example_msg :: tool_call_msg where
  "example_msg = \<lparr>msg_toolCallId = ''T'', msg_toolName = ''tool'', msg_args = ArgObj (JObj []),
                   msg_sessionId = ''1''\<rparr>"

definition empty_ctx :: tool_ctx where
  "empty_ctx = \<lparr>ctx_sessionId = JUndefined, ctx_toolCallId = JUndefined, ctx_state = JUndefined,
                 ctx_externalData = JUndefined, ctx_procId = JUndefined\<rparr>"

definition example_entry :: "string \<Rightarrow> jsval \<Rightarrow> jsval \<Rightarrow> tool_call_entry" where
  "example_entry st S X = \<lparr>e_status = st, e_state = S, e_context_sessionId = ''1'',
                            e_context_toolCallId = ''T'', e_externalData = X\<rparr>"

subsection \<open>Command resolution\<close>

text \<open>
  The alias loop of \<open>resolveCommand\<close>. Within one plugin the first tool whose alias
  function returns an object with a truthy \<open>name\<close> wins. After each plugin whose definition
  is an array the loop stops when an alias matched or when the command token is a registered
  name; a plugin whose definition is no array is skipped.
\<close>

definition has :: "registry \<Rightarrow> string \<Rightarrow> bool" where
  "has reg k = (case reg k of None \<Rightarrow> False | Some h \<Rightarrow> True)"

fun try_aliases :: "tool_def list \<Rightarrow> string list \<Rightarrow> alias_match option" where
  "try_aliases [] allParts = None"
| "try_aliases (tool # rest) allParts =
     (case alias_fn tool of
        None \<Rightarrow> try_aliases rest allParts
      | Some f \<Rightarrow>
          (case f allParts of
             Some m \<Rightarrow> if am_name m \<noteq> [] then Some m else try_aliases rest allParts
           | None \<Rightarrow> try_aliases rest allParts))"

fun scan_plugins :: "registry \<Rightarrow> plugins \<Rightarrow> string list \<Rightarrow> string \<Rightarrow> alias_match option" where
  "scan_plugins reg [] allParts cmd = None"
| "scan_plugins reg (None # ps) allParts cmd = scan_plugins reg ps allParts cmd"
| "scan_plugins reg (Some def # ps) allParts cmd =
     (case try_aliases def allParts of
        Some m \<Rightarrow> Some m
      | None \<Rightarrow> if has reg cmd then None else scan_plugins reg ps allParts cmd)"

text \<open>
  The underscore fallback: the next argument is glued to the command with \<open>__\<close> and the
  registry is asked again; the first hit ends the loop.
\<close>

fun underscore_fallback :: "registry \<Rightarrow> string \<Rightarrow> string list \<Rightarrow> (string \<times> string list) option" where
  "underscore_fallback reg currentCmd [] = None"
| "underscore_fallback reg currentCmd (nextPart # currentArgs) =
     (let glued = currentCmd @ ''__'' @ nextPart
      in if has reg glued then Some (glued, currentArgs)
         else underscore_fallback reg glued currentArgs)"

record resolved =
  r_cmd :: "string option"
  r_args :: "cmd_args option"
  r_handler :: "handler option"
  r_toolDef :: "tool_def option"
  r_error :: "string option"

text \<open>
  \<open>resolveCommand(cmdString)\<close>; \<open>parsed\<close> is the value of \<open>Utils.parseDSL(cmdString)\<close>, the
  command token and the remaining tokens, or \<open>None\<close> for \<open>null\<close>.
\<close>

definition resolveCommand :: "plugins \<Rightarrow> registry \<Rightarrow> (string \<times> string list) option \<Rightarrow> resolved" where
  "resolveCommand pl reg parsed =
     (case parsed of
        None \<Rightarrow> \<lparr>r_cmd = None, r_args = None, r_handler = None, r_toolDef = None,
                  r_error = Some ''Invalid command syntax''\<rparr>
      | Some (cmd0, args0) \<Rightarrow>
          let allParts = cmd0 # args0;
              (cmd1, args1) = (case scan_plugins reg pl allParts cmd0 of
                                 Some m \<Rightarrow> (am_name m, am_args m)
                               | None \<Rightarrow> (cmd0, ArgList args0));
              (cmd2, args2) =
                 (if \<not> has reg cmd1
                  then (case args1 of
                          ArgList as \<Rightarrow>
                            (case underscore_fallback reg cmd1 as of
                               Some (glued, rest) \<Rightarrow> (glued, ArgList rest)
                             | None \<Rightarrow> (cmd1, args1))
                        | ArgObj v \<Rightarrow> (cmd1, args1))
                  else (cmd1, args1))
          in \<lparr>r_cmd = Some cmd2, r_args = Some args2, r_handler = reg cmd2,
              r_toolDef = findToolDefinition pl cmd2,
              r_error = (case reg cmd2 of
                           None \<Rightarrow> Some (''Command not found: '' @ cmd2)
                         | Some h \<Rightarrow> None)\<rparr>)"

text \<open>
  The longest and the shortest glued name of the specification's wording, for comparison:
  the command glued with its first \<open>k\<close> arguments, for \<open>k\<close> from 1 to the number of
  arguments.
\<close>

definition glue :: "string \<Rightarrow> string list \<Rightarrow> string" where
  "glue cmd parts = join (cmd # parts) ''__''"

definition registered_lengths :: "registry \<Rightarrow> string \<Rightarrow> string list \<Rightarrow> nat list" where
  "registered_lengths reg cmd args =
     filter (\<lambda>k. has reg (glue cmd (take k args))) [1 ..< Suc (length args)]"

subsection \<open>Commands forwarded from the host\<close>

record command_msg =
  cm_command :: string
  cm_waitForResponse :: bool
  cm_fromHost :: bool
  cm_messageId :: jsval
  cm_requestId :: jsval
  cm_procId :: jsval

record response =
  resp_messageId :: jsval
  resp_success :: bool
  resp_result :: jsval
  resp_error :: jsval
  resp_type :: string

text \<open>
  What \<open>handleCommand\<close> ends in: a plain \<open>{success: false, error}\<close>, the forwarding of the
  command to the child of a session, the \<open>command_response\<close> of a forwarded command (also
  written to the socket when there is one), or the enqueueing of a local command.
\<close>

datatype command_outcome =
    Rejected string
  | ForwardToContainer int
  | Responded response
  | Enqueued

text \<open>
  The branch for \<open>message.fromHost\<close>. The log listener hears the messages the handler emits
  and, before them, the debug line of \<open>handleCommand\<close> itself when the log level lets debug
  messages through (\<open>debugLog\<close>).
\<close>

definition fromHost_response ::
  "bool \<Rightarrow> registry \<Rightarrow> command_msg \<Rightarrow> string \<Rightarrow> cmd_args \<Rightarrow> tool_ctx \<Rightarrow> tool_call_states
     \<Rightarrow> response \<times> tool_call_states" where
  "fromHost_response debugLog reg message cmd args handlerContext tcs =
     (case reg cmd of
        None \<Rightarrow>
          (\<lparr>resp_messageId = cm_messageId message, resp_success = False, resp_result = JUndefined,
            resp_error = JStr (''Tool '' @ cmd @ '' not found''), resp_type = ''command_response''\<rparr>,
           tcs)
      | Some h \<Rightarrow>
          (case h args handlerContext tcs of
             (Throws msg, logs, tcs') \<Rightarrow>
               (\<lparr>resp_messageId = cm_messageId message, resp_success = False,
                 resp_result = JUndefined, resp_error = JStr msg,
                 resp_type = ''command_response''\<rparr>, tcs')
           | (Returns result, logs, tcs') \<Rightarrow>
               let outputBuffer =
                     (if debugLog
                      then [''[handleCommand] Executing handler for '' @ [CHR 0x22] @ cmd @ [CHR 0x22]]
                      else []) @ logs;
                   output = join outputBuffer [CHR 0x0A];
                   st = opt_prop result ''status'';
                   (success, resultContent) =
                      (if st = JStr SUCCESS \<or> st = JStr ''success''
                       then (True, js_or (opt_prop result ''result'') (JStr output))
                       else if st = JStr FAILURE \<or> st = JStr ''error''
                       then (False, js_or (opt_prop result ''result'')
                                      (js_or (opt_prop result ''error'') (JStr output)))
                       else (False, js_or (JStr output)
                                      (JStr ''Tool execution failed: No status returned'')))
               in (\<lparr>resp_messageId = cm_messageId message, resp_success = success,
                    resp_result = resultContent, resp_error = opt_prop result ''error'',
                    resp_type = ''command_response''\<rparr>, tcs')))"

text \<open>
  \<open>handleCommand(message, context)\<close>; \<open>parsed\<close> is \<open>Utils.parseDSL(command)\<close> and
  \<open>sessionId\<close> is \<open>parseInt(context.sessionId || 0, 10)\<close>.
\<close>

definition handleCommand ::
  "bool \<Rightarrow> plugins \<Rightarrow> registry \<Rightarrow> (string \<times> string list) option \<Rightarrow> command_msg \<Rightarrow> int \<Rightarrow> tool_ctx
     \<Rightarrow> tool_call_states \<Rightarrow> command_outcome \<times> tool_call_states" where
  "handleCommand debugLog pl reg parsed message sessionId context tcs =
     (let procId = (if truthy (cm_procId message) then cm_procId message else ctx_procId context)
      in case parsed of
           None \<Rightarrow> (Rejected ''Invalid command'', tcs)
         | Some p \<Rightarrow>
             let resolved = resolveCommand pl reg parsed
             in (case r_error resolved of
                   Some err \<Rightarrow> (Rejected err, tcs)
                 | None \<Rightarrow>
                     let cmd = (case r_cmd resolved of Some c \<Rightarrow> c | None \<Rightarrow> []);
                         args = (case r_args resolved of Some a \<Rightarrow> a | None \<Rightarrow> ArgList []);
                         isLocalCmd = (case r_toolDef resolved of
                                         Some toolDef \<Rightarrow> localCommand toolDef | None \<Rightarrow> False);
                         currentSessionId = (if isLocalCmd then 0 else sessionId);
                         requiresHost = (case r_toolDef resolved of
                                           Some toolDef \<Rightarrow> requiresHostExecution toolDef
                                         | None \<Rightarrow> False)
                     in if currentSessionId \<noteq> 0 \<and> \<not> requiresHost \<and> \<not> cm_fromHost message
                        then (ForwardToContainer currentSessionId, tcs)
                        else if cm_fromHost message
                        then (let (r, tcs') =
                                    fromHost_response debugLog reg message cmd args
                                      \<lparr>ctx_sessionId = JNum currentSessionId,
                                       ctx_toolCallId = JUndefined, ctx_state = JUndefined,
                                       ctx_externalData = JUndefined, ctx_procId = procId\<rparr> tcs
                              in (Responded r, tcs'))
                        else (Enqueued, tcs)))"

text \<open>
  For the examples: a handler that logs the given messages and returns the given value, and
  the command \<open>ping\<close> as the host forwards it.
\<close>

definition plain_handler :: "string list \<Rightarrow> jsval \<Rightarrow> handler" where
  "plain_handler logs v = (\<lambda>args context tcs. (Returns v, logs, tcs))"

definition forwarded_ping :: command_msg where
  "forwarded_ping = \<lparr>cm_command = ''ping'', cm_waitForResponse = False, cm_fromHost = True,
                      cm_messageId = JStr ''msg_1'', cm_requestId = JUndefined,
                      cm_procId = JUndefined\<rparr>"

text \<open>
  For the comparison with the specification's wording of command resolution: the match of one
  tool's alias, the first match among a list of tools, and the tools of all plugins in
  registration order.
\<close>

definition alias_hit :: "string list \<Rightarrow> tool_def \<Rightarrow> alias_match option" where
  "alias_hit allParts tool =
     (case alias_fn tool of
        None \<Rightarrow> None
      | Some f \<Rightarrow> (case f allParts of
                     Some m \<Rightarrow> if am_name m \<noteq> [] then Some m else None
                   | None \<Rightarrow> None))"

definition first_hit :: "tool_def list \<Rightarrow> string list \<Rightarrow> alias_match option" where
  "first_hit tls allParts =
     (case List.map_filter (alias_hit allParts) tls of [] \<Rightarrow> None | m # ms \<Rightarrow> Some m)"

definition array_defs :: "plugins \<Rightarrow> tool_def list list" where
  "array_defs pl = List.map_filter (\<lambda>d. d) pl"

text \<open>
  For the examples: the alias of \<open>shell__pty__list\<close> as the shell plugin declares it, a
  tool definition with a name and an optional alias, and two catalogs.
\<close>

definition pty_list_alias :: "string list \<Rightarrow> alias_match option" where
  "pty_list_alias args =
     (case args of
        a # b # rest \<Rightarrow>
          if a = ''pty'' \<and> (b = ''list'' \<or> b = ''ls'')
          then Some \<lparr>am_name = ''shell__pty__list'', am_args = ArgObj (JObj [])\<rparr>
          else None
      | _ \<Rightarrow> None)"

definition example_tool :: "string \<Rightarrow> (string list \<Rightarrow> alias_match option) option \<Rightarrow> tool_def" where
  "example_tool n al = \<lparr>fn_name = n, requiresHostExecution = False, localCommand = False,
                         humanOnly = False, alias_fn = al\<rparr>"

definition example_plugins :: plugins where
  "example_plugins = [Some [example_tool ''core__help'' None],
                      Some [example_tool ''shell__pty__list'' (Some pty_list_alias)]]"

definition glue_registry :: registry where
  "glue_registry = [''shell__exec'' \<mapsto> plain_handler [] JUndefined,
                    ''shell__exec__foo'' \<mapsto> plain_handler [] JUndefined]"

definition pty_registry :: registry where
  "pty_registry = [''pty'' \<mapsto> plain_handler [] JUndefined,
                   ''shell__pty__list'' \<mapsto> plain_handler [] JUndefined]"

section \<open>The command allowlist (plugins/shell/terminal-allowlist.mjs)\<close>

text \<open>
  The regular expression engine is JavaScript's own. \<open>rx source flags\<close> stands for
  \<open>new RegExp(source, flags)\<close>: \<open>None\<close> when the constructor throws, otherwise the
  \<open>test\<close> of the fresh expression.
\<close>

type_synonym regexp_engine = "string \<Rightarrow> string \<Rightarrow> (string \<Rightarrow> bool) option"

text \<open>
  \<open>str.match(/^\/(.+)\/([a-z]*)$/)\<close>: a slash, a non-empty source without line breaks, the
  last slash of the string, and lower-case flags up to the end.
\<close>

definition is_lower :: "char \<Rightarrow> bool" where
  "is_lower c = (of_char c \<ge> (97::nat) \<and> of_char c \<le> (122::nat))"

definition regex_parts :: "string \<Rightarrow> (string \<times> string) option" where
  "regex_parts str =
     (case str of
        [] \<Rightarrow> None
      | c # body \<Rightarrow>
          if c \<noteq> CHR ''/'' then None
          else
            let r = rev body;
                flags = rev (takeWhile (\<lambda>x. x \<noteq> CHR ''/'') r);
                rest = dropWhile (\<lambda>x. x \<noteq> CHR ''/'') r
            in (case rest of
                  [] \<Rightarrow> None
                | slash # src_rev \<Rightarrow>
                    if src_rev \<noteq> [] \<and> list_all is_lower flags
                       \<and> CHR 0x0A \<notin> set src_rev \<and> CHR 0x0D \<notin> set src_rev
                    then Some (rev src_rev, flags)
                    else None))"

definition parseRegexPattern :: "regexp_engine \<Rightarrow> string \<Rightarrow> (string \<Rightarrow> bool) option" where
  "parseRegexPattern rx str =
     (case regex_parts str of
        None \<Rightarrow> None
      | Some (source, flags) \<Rightarrow> rx source flags)"

text \<open>
  \<open>parseCommandLine\<close>. The matches of one inline pattern (an opener, one or more
  characters other than the closer, the closer) are found from left to right without
  overlap; each contributes the trimmed text between opener and closer.
\<close>

fun inline_matches :: "string \<Rightarrow> char \<Rightarrow> nat \<Rightarrow> string \<Rightarrow> string list" where
  "inline_matches opener closer k [] = []"
| "inline_matches opener closer (Suc k) (c # cs) = inline_matches opener closer k cs"
| "inline_matches opener closer 0 (c # cs) =
     (if startsWith (c # cs) opener
      then (let rest = drop (length opener) (c # cs);
                run = takeWhile (\<lambda>x. x \<noteq> closer) rest
            in if run \<noteq> [] \<and> length run < length rest
               then trim run # inline_matches opener closer (length opener + length run) cs
               else inline_matches opener closer 0 cs)
      else inline_matches opener closer 0 cs)"

text \<open>\<open>commandLine.split(/(\|\||&&|;|\|)/)\<close>: the pieces and, between them, the separators.\<close>

fun split_operators :: "nat \<Rightarrow> string \<Rightarrow> string \<Rightarrow> string list" where
  "split_operators k cur [] = [rev cur]"
| "split_operators (Suc k) cur (c # cs) = split_operators k cur cs"
| "split_operators 0 cur (c # cs) =
     (if startsWith (c # cs) ''||'' then rev cur # ''||'' # split_operators 1 [] cs
      else if startsWith (c # cs) ''&&'' then rev cur # ''&&'' # split_operators 1 [] cs
      else if c = CHR '';'' then rev cur # '';'' # split_operators 0 [] cs
      else if c = CHR ''|'' then rev cur # ''|'' # split_operators 0 [] cs
      else split_operators 0 (c # cur) cs)"

definition parseCommandLine :: "string \<Rightarrow> string list" where
  "parseCommandLine commandLine =
     inline_matches ''$('' CHR '')'' 0 commandLine
     @ inline_matches [CHR 0x60] (CHR 0x60) 0 commandLine
     @ inline_matches ''<('' CHR '')'' 0 commandLine
     @ inline_matches ''>('' CHR '')'' 0 commandLine
     @ filter (\<lambda>part. part \<notin> set [''||'', ''&&'', '';'', ''|''] \<and> part \<noteq> [])
         (map trim (split_operators 0 [] commandLine))"

text \<open>\<open>getBaseCommand\<close> and \<open>matchesPattern\<close>.\<close>

definition strip_prefix :: "string \<Rightarrow> string \<Rightarrow> string" where
  "strip_prefix p s = (if startsWith s p then drop (length p) s else s)"

definition getBaseCommand :: "string \<Rightarrow> string" where
  "getBaseCommand command =
     (let cmd0 = trim command;
          cmd = (case cmd0 of
                   [] \<Rightarrow> cmd0
                 | quote # rest \<Rightarrow>
                     if (quote = CHR 0x22 \<or> quote = CHR 0x27) \<and> quote \<in> set rest
                     then takeWhile (\<lambda>x. x \<noteq> quote) rest
                     else cmd0);
          baseCmd = takeWhile (\<lambda>x. \<not> is_ws x) cmd
      in map (\<lambda>x. if x = CHR 0x5C then CHR ''/'' else x)
           (strip_prefix [CHR ''.'', CHR 0x5C] (strip_prefix ''./'' baseCmd)))"

definition matchesPattern :: "regexp_engine \<Rightarrow> string \<Rightarrow> string \<Rightarrow> bool" where
  "matchesPattern rx command pattern =
     (case parseRegexPattern rx pattern of
        Some test \<Rightarrow> test command
      | None \<Rightarrow>
          let baseCmd = getBaseCommand command;
              patternBase = getBaseCommand pattern
          in startsWith command pattern
             \<or> baseCmd = patternBase
             \<or> endsWith baseCmd (CHR ''/'' # patternBase)
             \<or> endsWith baseCmd (CHR 0x5C # patternBase))"

text \<open>
  \<open>checkSingleCommand\<close>. The allowlist is given as its \<open>Object.entries\<close>. The loop keeps
  the value of the last matching rule in \<open>approved\<close> and leaves at the first rule whose
  value is \<open>false\<close>.
\<close>

fun is_object :: "jsval \<Rightarrow> bool" where
  "is_object (JObj kvs) = True"
| "is_object (JArr xs) = True"
| "is_object v = False"

fun rule_loop ::
  "regexp_engine \<Rightarrow> string \<Rightarrow> bool \<Rightarrow> (string \<times> jsval) list \<Rightarrow> jsval \<Rightarrow> string option
     \<Rightarrow> jsval \<times> string option" where
  "rule_loop rx command checkFullCommand [] approved matchedRule = (approved, matchedRule)"
| "rule_loop rx command checkFullCommand ((pattern, val) # rest) approved matchedRule =
     (let isObject = is_object val
      in if isObject \<and> checkFullCommand \<and> \<not> truthy (opt_prop val ''matchCommandLine'')
         then rule_loop rx command checkFullCommand rest approved matchedRule
         else if isObject \<and> \<not> checkFullCommand \<and> truthy (opt_prop val ''matchCommandLine'')
         then rule_loop rx command checkFullCommand rest approved matchedRule
         else if matchesPattern rx command pattern
         then (if isObject
               then (let approved' = opt_prop val ''approve''
                     in if approved' = JBool False then (approved', Some pattern)
                        else rule_loop rx command checkFullCommand rest approved' (Some pattern))
               else if val = JNull
               then rule_loop rx command checkFullCommand rest approved (Some pattern)
               else (if val = JBool False then (val, Some pattern)
                     else rule_loop rx command checkFullCommand rest val (Some pattern)))
         else rule_loop rx command checkFullCommand rest approved matchedRule)"

record single_check =
  sc_approved :: bool
  sc_denied :: bool
  sc_matchedRule :: "string option"
  sc_reason :: string

definition rule_text :: "string option \<Rightarrow> string" where
  "rule_text r = (case r of Some p \<Rightarrow> p | None \<Rightarrow> ''null'')"

definition checkSingleCommand ::
  "regexp_engine \<Rightarrow> string \<Rightarrow> (string \<times> jsval) list \<Rightarrow> bool \<Rightarrow> single_check" where
  "checkSingleCommand rx command allowlist checkFullCommand =
     (let (approved, matchedRule) = rule_loop rx command checkFullCommand allowlist JNull None
      in \<lparr>sc_approved = (approved = JBool True),
          sc_denied = (approved = JBool False),
          sc_matchedRule = matchedRule,
          sc_reason = (if approved = JBool True then ''Approved by rule: '' @ rule_text matchedRule
                       else if approved = JBool False then ''Denied by rule: '' @ rule_text matchedRule
                       else ''No matching rule found'')\<rparr>)"

record command_check =
  approved :: bool
  reason :: string
  subCommands :: "string list"
  fullLineCheck :: single_check
  subCommandChecks :: "single_check list"

definition checkCommand :: "regexp_engine \<Rightarrow> string \<Rightarrow> (string \<times> jsval) list \<Rightarrow> command_check" where
  "checkCommand rx commandLine allowlist =
     (let subs = parseCommandLine commandLine;
          fullLine = checkSingleCommand rx commandLine allowlist True;
          subChecks = map (\<lambda>cmd. checkSingleCommand rx cmd allowlist False) subs;
          anyDenied = (sc_denied fullLine \<or> list_ex sc_denied subChecks);
          allSubCommandsApproved = (length subChecks > 0 \<and> list_all sc_approved subChecks);
          fullLineApproved = sc_approved fullLine;
          ok = (\<not> anyDenied \<and> (allSubCommandsApproved \<or> fullLineApproved));
          why = (if anyDenied
                 then ''Command denied: ''
                      @ (if sc_denied fullLine then sc_reason fullLine
                         else (case find sc_denied subChecks of
                                 Some c \<Rightarrow> sc_reason c
                               | None \<Rightarrow> []))
                 else if ok
                 then (if fullLineApproved
                       then ''Full command line approved: '' @ rule_text (sc_matchedRule fullLine)
                       else ''All sub-commands approved'')
                 else ''No matching approval rule found - requires explicit approval'')
      in \<lparr>approved = ok, reason = why, subCommands = subs, fullLineCheck = fullLine,
          subCommandChecks = subChecks\<rparr>)"

text \<open>No regular expression of the examples needs the engine.\<close>

definition no_regexp :: regexp_engine where
  "no_regexp = (\<lambda>source flags. None)"

section \<open>The shell tool (plugins/shell/index.mjs)\<close>

text \<open>
  The text of a value inside a template literal. Integers print in decimal; an array prints
  its elements separated by commas, \<open>null\<close> and \<open>undefined\<close> elements as nothing.
\<close>

fun digits :: "nat \<Rightarrow> nat \<Rightarrow> string" where
  "digits 0 n = []"
| "digits (Suc fuel) n =
     (if n < 10 then [char_of (48 + n)] else digits fuel (n div 10) @ [char_of (48 + n mod 10)])"

definition show_int :: "int \<Rightarrow> string" where
  "show_int i = (if i < 0 then CHR ''-'' # digits (Suc (nat (- i))) (nat (- i))
                 else digits (Suc (nat i)) (nat i))"

fun to_str :: "jsval \<Rightarrow> string"
  and elems_str :: "jsval list \<Rightarrow> string" where
  "to_str JUndefined = ''undefined''"
| "to_str JNull = ''null''"
| "to_str (JBool b) = (if b then ''true'' else ''false'')"
| "to_str (JNum n) = show_int n"
| "to_str (JStr s) = s"
| "to_str (JArr xs) = elems_str xs"
| "to_str (JObj kvs) = ''[object Object]''"
| "elems_str [] = []"
| "elems_str [x] = (if x = JNull \<or> x = JUndefined then [] else to_str x)"
| "elems_str (x # y # ys) =
     (if x = JNull \<or> x = JUndefined then [] else to_str x) @ '','' @ elems_str (y # ys)"

text \<open>
  What the tool does to the outside: it runs a command with \<open>executeCommand\<close>, or routes an
  \<open>approval_request\<close> through the bridge, which pauses the session and creates the approval
  record.
\<close>

datatype shell_event =
    Executed jsval
  | ApprovalRequest jsval jsval string

record approval =
  a_toolCallId :: jsval
  a_sessionId :: jsval
  a_status :: string
  a_response :: jsval

text \<open>
  The surroundings of \<open>executeShell\<close>: the regular expression engine, the user's allowlist
  (\<open>loadAllowlist()\<close>), the allowlist of the session's tool options if there is one, whether
  the configuration has \<open>unattended\<close> set to \<open>true\<close>, the stored approvals, and the result
  that running a command gives.
\<close>

record shell_env =
  env_rx :: regexp_engine
  env_allowlist :: "(string \<times> jsval) list"
  env_sessionAllowlist :: "(string \<times> jsval) list option"
  env_unattended :: bool
  env_approvals :: "approval list"
  env_exec :: "jsval \<Rightarrow> jsval"

definition running_result :: "jsval \<Rightarrow> jsval" where
  "running_result st = JObj [(''status'', JStr RUNNING), (''state'', st)]"

definition executeShell ::
  "shell_env \<Rightarrow> cmd_args \<Rightarrow> tool_ctx \<Rightarrow> handler_outcome \<times> shell_event list" where
  "executeShell env args context =
     (let command = (case args of
                       ArgList parts \<Rightarrow> JStr (join parts '' '')
                     | ArgObj v \<Rightarrow> opt_prop v ''command'');
          state = js_or (ctx_state context) (JObj []);
          phase = js_or (opt_prop state ''phase'') (JStr ''initial'');
          externalData = js_or (ctx_externalData context) (JObj [])
      in if phase = JStr ''initial''
         then (case command of
                 JStr commandLine \<Rightarrow>
                   (let check = checkCommand (env_rx env) commandLine
                                  (case env_sessionAllowlist env of
                                     Some sessionAllowlist \<Rightarrow> sessionAllowlist
                                   | None \<Rightarrow> env_allowlist env)
                    in if approved check \<or> \<not> truthy (ctx_sessionId context)
                       then (Returns (env_exec env command), [Executed command])
                       else if env_unattended env
                       then (let allowedCommands =
                                   (case env_sessionAllowlist env of
                                      Some sessionAllowlist \<Rightarrow>
                                        map fst (filter (\<lambda>(k, v). v = JBool True) sessionAllowlist)
                                    | None \<Rightarrow> []);
                                 errorMsg =
                                   ''Command execution rejected by unattended mode security policy. Reason: ''
                                   @ reason check @ ''.''
                                   @ (if allowedCommands \<noteq> []
                                      then '' Allowed commands: '' @ join allowedCommands '', '' @ ''.''
                                      else [])
                                   @ '' Enable human approval by setting unattended to false.''
                             in (Returns (failure_result errorMsg), []))
                       else (case (if truthy (ctx_toolCallId context)
                                   then find (\<lambda>a. a_toolCallId a = ctx_toolCallId context
                                                   \<and> a_sessionId a = ctx_sessionId context
                                                   \<and> (a_status a = ''approve'' \<or> a_status a = ''modify''))
                                          (env_approvals env)
                                   else None) of
                               Some existing \<Rightarrow>
                                 if a_status existing = ''modify''
                                 then (Returns (failure_result
                                          (''Command rejected. Human guidance: ''
                                           @ to_str (a_response existing))), [])
                                 else (Returns (env_exec env command), [Executed command])
                             | None \<Rightarrow>
                                 (Returns (running_result
                                     (JObj [(''phase'', JStr ''awaiting_approval''),
                                            (''command'', command)])),
                                  [ApprovalRequest (ctx_sessionId context) (ctx_toolCallId context)
                                     (''Execute shell command: '' @ commandLine @ [CHR 0x0A]
                                      @ ''Reason: '' @ reason check)])))
               | other \<Rightarrow> (Throws (type_error_text ''match''), []))
         else if phase = JStr ''awaiting_approval''
         then (if \<not> truthy (opt_prop externalData ''approvalReceived'')
               then (Returns (running_result
                        (JObj [(''phase'', JStr ''awaiting_approval''),
                               (''command'', opt_prop state ''command'')])), [])
               else if opt_prop externalData ''choice'' = JStr ''APPROVE''
               then (Returns (env_exec env (opt_prop state ''command'')),
                     [Executed (opt_prop state ''command'')])
               else (Returns (failure_result
                        (''Command rejected. Human guidance: ''
                         @ to_str (js_or (opt_prop externalData ''explanation'')
                                     (JStr ''Human denied request.'')))), []))
         else (Returns (failure_result (''Unknown FSM phase: '' @ to_str (opt_prop state ''phase''))),
               []))"

text \<open>
  The environment of scenario S3: \<open>unattended\<close> is set and the allowlist denies \<open>rm\<close>;
  the second one adds a session allowlist.
\<close>

definition unattended_env :: "(string \<times> jsval) list option \<Rightarrow> shell_env" where
  "unattended_env sessionAllowlist =
     \<lparr>env_rx = no_regexp,
      env_allowlist = [(''echo'', JBool True), (''rm'', JBool False)],
      env_sessionAllowlist = sessionAllowlist,
      env_unattended = True,
      env_approvals = [],
      env_exec = (\<lambda>command. JObj [(''status'', JStr ''success''), (''result'', JStr ''done'')])\<rparr>"

definition session_ctx :: tool_ctx where
  "session_ctx = \<lparr>ctx_sessionId = JStr ''1'', ctx_toolCallId = JStr ''T'', ctx_state = JObj [],
                   ctx_externalData = JUndefined, ctx_procId = JUndefined\<rparr>"

section \<open>The agent loop (plugins/agent/controllers/agent-loop.mjs)\<close>

text \<open>
  A choice of a provider response: \<open>message.content\<close> and \<open>message.tool_calls\<close> may be
  absent. The request carries the model name, the messages and the tools offered.
\<close>

record choice =
  ch_content :: "string option"
  ch_tool_calls :: "tool_call list option"
  ch_finish_reason :: string

record completion =
  choices :: "choice list"
  completion_usage :: jsval

record request =
  rq_provider :: string
  rq_model :: string
  rq_messages :: "message list"
  rq_tools :: "string list option"

text \<open>
  The loop over \<open>response.choices\<close> (lines 330 to 347): content is appended when it is
  truthy, tool calls when the list is there and not empty, and \<open>finishReason\<close>, which starts
  as \<open>'stop'\<close>, becomes \<open>'tool_calls'\<close> when a choice has that finish reason.
\<close>

definition merge_step :: "choice \<Rightarrow> string \<times> tool_call list \<times> string \<Rightarrow> string \<times> tool_call list \<times> string" where
  "merge_step c = (\<lambda>(text, calls, finishReason).
     ((case ch_content c of Some s \<Rightarrow> if s \<noteq> [] then text @ s else text | None \<Rightarrow> text),
      (case ch_tool_calls c of Some tcs \<Rightarrow> if length tcs > 0 then calls @ tcs else calls
                             | None \<Rightarrow> calls),
      (if ch_finish_reason c = ''tool_calls'' then ''tool_calls'' else finishReason)))"

definition merge_choices :: "choice list \<Rightarrow> string \<Rightarrow> message" where
  "merge_choices cs now =
     (let (text, calls, finishReason) = fold merge_step cs ([], [], ''stop'')
      in \<lparr>role = ''assistant'', content = Some text, tool_calls = Some calls,
          tool_call_id = None, name = None, timestamp = Some now,
          finish_reason = Some finishReason\<rparr>)"

text \<open>
  The same loop as the command line client has it (cli.mjs, lines 398 to 420), with its
  comment "Use 'tool_calls' finish_reason if any choice has it, otherwise use last choice's
  reason": there a truthy finish reason other than \<open>'tool_calls'\<close> replaces the reason
  so far. The reasoning text, which is only logged, is left out.
\<close>

definition cli_merge_step :: "choice \<Rightarrow> string \<times> tool_call list \<times> string \<Rightarrow> string \<times> tool_call list \<times> string" where
  "cli_merge_step c = (\<lambda>(acc, calls, finishReason).
     ((case ch_content c of Some s \<Rightarrow> if s \<noteq> [] then acc @ s else acc | None \<Rightarrow> acc),
      (case ch_tool_calls c of Some tcs \<Rightarrow> calls @ tcs | None \<Rightarrow> calls),
      (if ch_finish_reason c = ''tool_calls'' then ''tool_calls''
       else if ch_finish_reason c \<noteq> [] then ch_finish_reason c
       else finishReason)))"

definition cli_merge_choices :: "choice list \<Rightarrow> string \<Rightarrow> message" where
  "cli_merge_choices cs now =
     (let (acc, calls, finishReason) = fold cli_merge_step cs ([], [], ''stop'')
      in \<lparr>role = ''assistant'', content = Some acc, tool_calls = Some calls,
          tool_call_id = None, name = None, timestamp = Some now,
          finish_reason = Some finishReason\<rparr>)"

text \<open>
  A response in two choices without tool calls, the second cut off by the token limit.
\<close>

definition truncated_choices :: "choice list" where
  "truncated_choices =
     [\<lparr>ch_content = Some ''Po'', ch_tool_calls = None, ch_finish_reason = ''stop''\<rparr>,
      \<lparr>ch_content = Some ''ng'', ch_tool_calls = None, ch_finish_reason = ''length''\<rparr>]"

text \<open>
  The fields of \<open>AgentLoop\<close> that a tick reads or writes, and what a tick is given from
  outside: the provider (it answers or throws), the plugins and the human-only tool names,
  the bridge's routing of a tool call (it may change the store, for instance pause the
  session), \<open>JSON.parse\<close> and \<open>JSON.stringify\<close>, and the time stamp.
\<close>

record agent_loop =
  sessionId :: string
  isRunning :: bool
  attemptedPrompts :: "string list"
  provider :: "string option"

record loop_env =
  le_provider :: "request \<Rightarrow> string + completion"
  le_plugins :: plugins
  le_humanOnlyTools :: "string list"
  le_route :: "tool_call_msg \<Rightarrow> store \<Rightarrow> handler_outcome \<times> store"
  le_parse :: "string \<Rightarrow> jsval option"
  le_stringify :: "jsval \<Rightarrow> string"
  le_now :: string

datatype tick_outcome = Returned | Threw string

text \<open>The tools offered to the model: allowed by the session, not human-only.\<close>

fun item_name :: "tool_item \<Rightarrow> string" where
  "item_name (ToolName n) = n"
| "item_name (ToolOptions n opts) = n"

definition gather_tools :: "loop_env \<Rightarrow> session \<Rightarrow> string list" where
  "gather_tools env s =
     (let allowedTools = map item_name (tools (metadata s))
      in map fn_name
           (filter (\<lambda>tool. \<not> (allowedTools \<noteq> [] \<and> fn_name tool \<notin> set allowedTools)
                          \<and> \<not> (humanOnly tool \<or> fn_name tool \<in> set (le_humanOnlyTools env)))
              (concat (array_defs (le_plugins env)))))"

text \<open>
  The text of a finished tool result: the result of a success (\<open>JSON.stringify\<close> unless it
  is a string), otherwise the error or a fixed text.
\<close>

definition result_content :: "loop_env \<Rightarrow> jsval \<Rightarrow> string" where
  "result_content env toolResult =
     (if opt_prop toolResult ''status'' = JStr SUCCESS
      then (case opt_prop toolResult ''result'' of
              JStr s \<Rightarrow> s
            | v \<Rightarrow> le_stringify env v)
      else to_str (js_or (opt_prop toolResult ''error'') (JStr ''Tool execution failed'')))"

definition reload_metadata :: "string \<Rightarrow> session \<Rightarrow> store \<Rightarrow> session \<times> store" where
  "reload_metadata sid s = (\<lambda>(c, fs).
     let (fresh, st) = SessionModel_load sid (loadAll fs c, fs)
     in (case fresh of
           Some f \<Rightarrow> (s\<lparr>metadata := metadata f\<rparr>, st)
         | None \<Rightarrow> (s, st)))"

definition push_message :: "message \<Rightarrow> session \<Rightarrow> session" where
  "push_message m s = s\<lparr>spec := (spec s)\<lparr>messages := messages (spec s) @ [m]\<rparr>\<rparr>"

text \<open>
  The loop over the tool calls of the merged message. A result without a readable
  \<open>status\<close> makes the tick throw; a running tool adds no message.
\<close>

fun process_tool_calls ::
  "loop_env \<Rightarrow> string \<Rightarrow> tool_call list \<Rightarrow> session \<times> store \<Rightarrow> string \<times> store + session \<times> store" where
  "process_tool_calls env sid [] (s, st) = Inr (s, st)"
| "process_tool_calls env sid (toolCall # rest) (s, st) =
     (let cmdArgs = (case le_parse env (tc_arguments toolCall) of Some v \<Rightarrow> v | None \<Rightarrow> JObj []);
          (outcome, st1) = le_route env \<lparr>msg_toolCallId = tc_id toolCall, msg_toolName = tc_name toolCall,
                                         msg_args = ArgObj cmdArgs, msg_sessionId = sid\<rparr> st;
          toolResult = (case outcome of
                          Returns r \<Rightarrow> r
                        | Throws msg \<Rightarrow> failure_result (''Error: '' @ msg))
      in case get_prop toolResult ''status'' of
           Inl err \<Rightarrow> Inl (err, st1)
         | Inr stat \<Rightarrow>
             if stat = JStr RUNNING then process_tool_calls env sid rest (s, st1)
             else (let (s1, st2) = reload_metadata sid s st1;
                       s2 = push_message \<lparr>role = ''tool'', content = Some (result_content env toolResult),
                                           tool_calls = None, tool_call_id = Some (tc_id toolCall),
                                           name = Some (tc_name toolCall),
                                           timestamp = Some (le_now env), finish_reason = None\<rparr> s1
                   in process_tool_calls env sid rest (s2, st2)))"

text \<open>
  The identifier \<open>finishReason\<close> as line 459 reads it. Its only declaration is the \<open>let\<close>
  of line 331, inside the block of lines 289 to 352 (the branch that asks the provider);
  line 459 lies in another block of the function, no enclosing scope declares the name, and
  reading an undeclared identifier throws a ReferenceError.
\<close>

definition finishReason_at_line_459 :: "string + string" where
  "finishReason_at_line_459 = Inl ''finishReason is not defined''"

text \<open>
  \<open>{...response.usage, timestamp, model}\<close>, and the rest of a tick once the assistant
  message is at hand (lines 354 to 464): \<open>resuming\<close> tells that the message is the last one
  of the log, with pending tool calls, and not a new answer of the provider. The session is
  taken by value; \<open>SessionModel.save\<close> and \<open>collection.save()\<close> follow each change the
  source persists.
\<close>

definition with_usage :: "jsval \<Rightarrow> string \<Rightarrow> string \<Rightarrow> jsval" where
  "with_usage u now modelName =
     JObj (AList.update ''model'' (JStr modelName)
            (AList.update ''timestamp'' (JStr now) (case u of JObj kvs \<Rightarrow> kvs | other \<Rightarrow> [])))"

definition after_merge ::
  "loop_env \<Rightarrow> agent_loop \<Rightarrow> store \<Rightarrow> session \<Rightarrow> message \<Rightarrow> bool \<Rightarrow> tick_outcome \<times> agent_loop \<times> store" where
  "after_merge env loop st session combinedMessage resuming =
     (let sid = sessionId loop;
          calls = (case tool_calls combinedMessage of Some tcs \<Rightarrow> tcs | None \<Rightarrow> [])
      in if calls \<noteq> []
         then (let (s1, st1) =
                     (if \<not> resuming
                      then (let s' = push_message combinedMessage session
                            in (s', save (SessionModel_save sid s' st)))
                      else (session, st))
               in case process_tool_calls env sid calls (s1, st1) of
                    Inl (err, st2) \<Rightarrow> (Threw err, loop, st2)
                  | Inr (s2, st2) \<Rightarrow>
                      let (s3, st3) = reload_metadata sid s2 st2
                      in (Returned, loop, save (SessionModel_save sid s3 st3)))
         else (let s' = push_message combinedMessage session;
                   st1 = save (SessionModel_save sid s' st)
               in case finishReason_at_line_459 of
                    Inl err \<Rightarrow> (Threw err, loop, st1)
                  | Inr finishReason \<Rightarrow>
                      if finishReason = ''stop'' \<or> finishReason = ''end_turn''
                      then (Returned, loop\<lparr>isRunning := False\<rparr>,
                            snd (SessionModel_transition sid ''complete'' (le_now env) st1))
                      else (Returned, loop, st1)))"

text \<open>
  \<open>stop()\<close> and \<open>tick()\<close>. The map \<open>toolMetadata\<close>, which a tick only writes,
  and the abort controller are left out; a tick that throws is \<open>Threw\<close> with the
  message of the exception.
\<close>

definition stop_loop :: "loop_env \<Rightarrow> agent_loop \<Rightarrow> store \<Rightarrow> agent_loop \<times> store" where
  "stop_loop env loop st =
     (loop\<lparr>isRunning := False\<rparr>,
      snd (SessionModel_transition (sessionId loop) ''stop'' (le_now env) st))"

definition tick :: "loop_env \<Rightarrow> agent_loop \<times> store \<Rightarrow> tick_outcome \<times> agent_loop \<times> store" where
  "tick env = (\<lambda>(loop, (c, fs)).
     let sid = sessionId loop;
         (loaded, st) = SessionModel_load sid (loadAll fs c, fs)
     in case loaded of
          None \<Rightarrow> (let (loop', st') = stop_loop env loop st in (Returned, loop', st'))
        | Some session \<Rightarrow>
            let stat = status (metadata session)
            in if stat = Some PAUSED then (Returned, loop, st)
               else if stat = Some PENDING
               then (Returned, loop, snd (SessionModel_transition sid ''start'' (le_now env) st))
               else if stat = Some STOPPED then (Returned, loop\<lparr>isRunning := False\<rparr>, st)
               else if stat = Some SUCCESS \<or> stat = Some ERROR
               then (Returned, loop\<lparr>isRunning := False\<rparr>, st)
               else
                 let msgs = messages (spec session)
                 in if msgs = [] then (Returned, loop, st)
                    else
                      let lastMessage = last msgs;
                          pendingToolCalls =
                            (if role lastMessage = ''assistant''
                             then (case tool_calls lastMessage of Some tcs \<Rightarrow> tcs | None \<Rightarrow> [])
                             else [])
                      in if \<not> (role lastMessage = ''user'' \<or> role lastMessage = ''tool''
                                \<or> pendingToolCalls \<noteq> [])
                         then (Returned, loop, st)
                         else
                           (case model (metadata session) of
                              None \<Rightarrow> (Returned, loop, st)
                            | Some modelStr \<Rightarrow>
                                if modelStr = [] \<or> CHR '':'' \<notin> set modelStr
                                then (Returned, loop, st)
                                else
                                  let parts = split modelStr '':'';
                                      providerName = hd parts;
                                      modelName = join (tl parts) '':'';
                                      loop1 = (case provider loop of
                                                 None \<Rightarrow> loop\<lparr>provider := Some providerName\<rparr>
                                               | Some p \<Rightarrow> loop);
                                      toolNames = gather_tools env session;
                                      chatMessages =
                                        (case system_prompt (spec session) of
                                           Some sp \<Rightarrow>
                                             if sp \<noteq> []
                                             then [\<lparr>role = ''system'', content = Some sp,
                                                    tool_calls = None, tool_call_id = None,
                                                    name = None, timestamp = None,
                                                    finish_reason = None\<rparr>]
                                             else []
                                         | None \<Rightarrow> []) @ msgs
                                  in if pendingToolCalls \<noteq> []
                                     then after_merge env loop1 st session lastMessage True
                                     else
                                       let promptKey = sid @ '':'' @ show_int (int (length msgs))
                                       in if promptKey \<in> set (attemptedPrompts loop1)
                                          then (Returned, loop1, st)
                                          else
                                            (case le_provider env
                                                    \<lparr>rq_provider = (case provider loop1 of Some p \<Rightarrow> p
                                                                    | None \<Rightarrow> providerName),
                                                     rq_model = modelName, rq_messages = chatMessages,
                                                     rq_tools = (if toolNames \<noteq> [] then Some toolNames
                                                                 else None)\<rparr> of
                                               Inl err \<Rightarrow>
                                                 (Threw err,
                                                  loop1\<lparr>attemptedPrompts :=
                                                           set_add promptKey (attemptedPrompts loop1)\<rparr>,
                                                  st)
                                             | Inr resp \<Rightarrow>
                                                 let session1 =
                                                       (if truthy (completion_usage resp)
                                                        then session\<lparr>metadata := (metadata session)
                                                               \<lparr>usage := with_usage (completion_usage resp)
                                                                            (le_now env) modelName\<rparr>\<rparr>
                                                        else session);
                                                     loop2 = loop1\<lparr>attemptedPrompts := []\<rparr>;
                                                     combinedMessage = merge_choices (choices resp) (le_now env)
                                                 in after_merge env loop2 st session1 combinedMessage False)))"

text \<open>
  \<open>start()\<close>, once the socket to the host is connected: the session is started, the system
  prompt is rendered once if it holds a template marker (\<open>le_render\<close> is \<open>ejs.render\<close>,
  \<open>None\<close> when it throws), and the loop ticks while \<open>isRunning\<close>; an exception of a tick
  is logged and the loop goes on. \<open>run_ticks n\<close> is the loop cut after \<open>n\<close> rounds.
\<close>

fun includes_str :: "string \<Rightarrow> string \<Rightarrow> bool" where
  "includes_str [] p = (p = [])"
| "includes_str (c # cs) p = (startsWith (c # cs) p \<or> includes_str cs p)"

definition evaluateSystemPromptInContainer ::
  "(string \<Rightarrow> string option) \<Rightarrow> string \<Rightarrow> session \<Rightarrow> store \<Rightarrow> store" where
  "evaluateSystemPromptInContainer render sid s st =
     (case system_prompt (spec s) of
        None \<Rightarrow> st
      | Some sp \<Rightarrow>
          if sp = [] \<or> \<not> includes_str sp ''<%'' then st
          else (case render sp of
                  None \<Rightarrow> st
                | Some evaluatedPrompt \<Rightarrow>
                    (case st of (c, fs) \<Rightarrow>
                       save (set_coll sid (s\<lparr>spec := (spec s)\<lparr>system_prompt := Some evaluatedPrompt\<rparr>\<rparr>) c,
                             fs))))"

fun run_ticks :: "loop_env \<Rightarrow> nat \<Rightarrow> agent_loop \<times> store \<Rightarrow> agent_loop \<times> store" where
  "run_ticks env 0 ls = ls"
| "run_ticks env (Suc n) (loop, st) =
     (if isRunning loop
      then (case tick env (loop, st) of (outcome, loop', st') \<Rightarrow> run_ticks env n (loop', st'))
      else (loop, st))"

definition start_loop ::
  "loop_env \<Rightarrow> (string \<Rightarrow> string option) \<Rightarrow> agent_loop \<times> store \<Rightarrow> agent_loop \<times> store" where
  "start_loop env render = (\<lambda>(loop, st).
     let sid = sessionId loop;
         st1 = snd (SessionModel_transition sid ''start'' (le_now env) st);
         (loaded, st2) = SessionModel_load sid st1;
         st3 = (case loaded of
                  Some s \<Rightarrow> evaluateSystemPromptInContainer render sid s st2
                | None \<Rightarrow> st2)
     in (loop\<lparr>isRunning := True\<rparr>, st3))"

text \<open>
  Scenario S1: the session file of a pending session with the user message \<open>Ping\<close>, and a
  provider that answers with the single choice \<open>Pong\<close>, finish reason \<open>stop\<close>.
\<close>

definition user_ping :: message where
  "user_ping = \<lparr>role = ''user'', content = Some ''Ping'', tool_calls = None, tool_call_id = None,
                 name = None, timestamp = None, finish_reason = None\<rparr>"

definition pong_choice :: choice where
  "pong_choice = \<lparr>ch_content = Some ''Pong'', ch_tool_calls = None, ch_finish_reason = ''stop''\<rparr>"

definition echo_env :: loop_env where
  "echo_env = \<lparr>le_provider = (\<lambda>rq. Inr \<lparr>choices = [pong_choice], completion_usage = JUndefined\<rparr>),
                le_plugins = [],
                le_humanOnlyTools = [],
                le_route = (\<lambda>m st. (Throws ''no tools'', st)),
                le_parse = (\<lambda>s. None),
                le_stringify = (\<lambda>v. []),
                le_now = ''2026-01-01T00:00:00.000Z''\<rparr>"

definition echo_loop :: agent_loop where
  "echo_loop = \<lparr>sessionId = ''1'', isRunning = False, attemptedPrompts = [], provider = None\<rparr>"

definition echo_start :: "agent_loop \<times> store" where
  "echo_start = start_loop echo_env (\<lambda>sp. None)
                  (echo_loop, (new_collection, example_fs ''pending'' [user_ping]))"

text \<open>What the session file \<open><id>.yml\<close> holds: the status and the message log.\<close>

definition disk_session :: "store \<Rightarrow> string \<Rightarrow> session option" where
  "disk_session st ident =
     (case map_of (files (snd st)) (ident, Yml) of
        Some f \<Rightarrow> data f
      | None \<Rightarrow> None)"

definition disk_status :: "store \<Rightarrow> string \<Rightarrow> string option" where
  "disk_status st ident = (case disk_session st ident of Some s \<Rightarrow> status (metadata s) | None \<Rightarrow> None)"

definition disk_messages :: "store \<Rightarrow> string \<Rightarrow> message list" where
  "disk_messages st ident = (case disk_session st ident of Some s \<Rightarrow> messages (spec s) | None \<Rightarrow> [])"

text \<open>Three choices of one response, for the example of the merge.\<close>

definition example_call :: "string \<Rightarrow> tool_call" where
  "example_call i = \<lparr>tc_id = i, tc_name = ''fs__directory__list'', tc_arguments = ''{}''\<rparr>"

definition example_choices :: "choice list" where
  "example_choices =
     [\<lparr>ch_content = Some ''Hello '', ch_tool_calls = Some [example_call ''a''],
       ch_finish_reason = ''tool_calls''\<rparr>,
      \<lparr>ch_content = None, ch_tool_calls = None, ch_finish_reason = ''stop''\<rparr>,
      \<lparr>ch_content = Some ''world'', ch_tool_calls = Some [example_call ''b'', example_call ''c''],
       ch_finish_reason = ''stop''\<rparr>]"

section \<open>Properties of the session state machine\<close>

text \<open>The table that the constructor parses out of the eight rule strings.\<close>

lemma sessionFSM_table: "sessionFSM =
  [(''pause'', \<lparr>from = [''pending'', ''running''], to = Some ''paused''\<rparr>),
  (''resume'', \<lparr>from = [''paused''], to = Some ''pending''\<rparr>),
  (''retry'', \<lparr>from = [''success'', ''error''], to = Some ''pending''\<rparr>),
  (''stop'', \<lparr>from = [''pending'', ''running'', ''paused''], to = Some ''stopped''\<rparr>),
  (''run'', \<lparr>from = [''stopped''], to = Some ''running''\<rparr>),
  (''start'', \<lparr>from = [''pending''], to = Some ''running''\<rparr>),
  (''complete'', \<lparr>from = [''running''], to = Some ''success''\<rparr>),
  (''fail'', \<lparr>from = [''running''], to = Some ''error''\<rparr>)]"
  by code_simp

lemma transition_listed:
  "(a, fr, t) \<in> set spec_table \<Longrightarrow>
     transition sessionFSM s a =
       (if s \<in> set fr then Success s (Some t)
        else Failure s (''Cannot '' @ a @ '' from '' @ [CHR 0x27] @ s @ [CHR 0x27]
                        @ ''. Valid: '' @ join fr '', ''))"
  unfolding sessionFSM_table spec_table_def transition_def
  apply simp
  apply (elim disjE)
  apply simp_all
  done

lemma transition_unlisted:
  "a \<notin> fst ` set spec_table \<Longrightarrow> transition sessionFSM s a = Failure s (''Unknown action: '' @ a)"
  unfolding sessionFSM_table spec_table_def transition_def
  by simp

lemma spec_unique:
  "(a, fr, t) \<in> set spec_table \<Longrightarrow> (a, fr', t') \<in> set spec_table \<Longrightarrow> fr' = fr \<and> t' = t"
  unfolding spec_table_def by auto

lemma transition_success_iff_valid:
  "(\<exists>t. transition sessionFSM s a = Success s t) = (a \<in> set (validActions sessionFSM s))"
  unfolding sessionFSM_table transition_def validActions_def
  by (simp split: option.splits if_splits)

lemma transition_success_iff_table:
  "(\<exists>t. transition sessionFSM s a = Success s t) =
   (\<exists>fr t. (a, fr, t) \<in> set spec_table \<and> s \<in> set fr)"
proof (cases "a \<in> fst ` set spec_table")
  case True
  then obtain fr t where m: "(a, fr, t) \<in> set spec_table" by force
  note eq = transition_listed[OF m, of s]
  show ?thesis
  proof
    assume "\<exists>t. transition sessionFSM s a = Success s t"
    then have "s \<in> set fr" using eq by (cases "s \<in> set fr") simp_all
    then show "\<exists>fr t. (a, fr, t) \<in> set spec_table \<and> s \<in> set fr" using m by blast
  next
    assume "\<exists>fr t. (a, fr, t) \<in> set spec_table \<and> s \<in> set fr"
    then obtain fr' t' where m': "(a, fr', t') \<in> set spec_table" and s: "s \<in> set fr'" by blast
    from spec_unique[OF m m'] s have "s \<in> set fr" by simp
    then show "\<exists>t. transition sessionFSM s a = Success s t" using eq by simp
  qed
next
  case False
  then have "\<And>fr t. (a, fr, t) \<notin> set spec_table" by force
  then show ?thesis using transition_unlisted[OF False, of s] by simp
qed

lemma transition_failed_store:
  "SessionModel_transition ident a ts (c, fs) = (TransitionFailed old e, st') \<Longrightarrow>
     st' = snd (SessionModel_load ident (loadAll fs c, fs)) \<and> snd st' = fs"
  unfolding SessionModel_transition_def SessionModel_load_def
  by (auto simp: Let_def split: prod.splits option.splits fsm_result.splits)

lemma transition_ok_iff:
  "SessionModel_load ident (loadAll fs c, fs) = (Some sess, st1) \<Longrightarrow>
     (\<exists>fr t st'. SessionModel_transition ident a ts (c, fs) = (TransitionOk fr t, st')) =
     (a \<in> set (validActions sessionFSM (currentState_of sess)))"
  unfolding transition_success_iff_valid[symmetric]
  unfolding SessionModel_transition_def
  by (auto simp: Let_def transition_def split: prod.splits option.splits fsm_result.splits if_splits)

text \<open>
  C3. For every state \<open>s\<close> and action \<open>a\<close>, \<open>transition(s, a)\<close> of the session machine
  succeeds exactly when \<open>a\<close> is one of the eight actions of the table of section 4.3 and
  \<open>s\<close> is in its from-set, which is the same as \<open>a\<close> being among \<open>validActions(s)\<close>. On
  success the result carries the to-state of the table. On failure for a listed action the
  error names the from-set of the table; an unlisted action is reported as unknown. A failed
  \<open>SessionModel.transition\<close> only reloads the store: no file is written, and when the session
  exists it succeeds exactly for the valid actions of the stored status.
\<close>

theorem session_fsm_transition_spec:
  "((\<exists>t. transition sessionFSM s a = Success s t) =
      (\<exists>fr t. (a, fr, t) \<in> set spec_table \<and> s \<in> set fr))
   \<and> ((\<exists>t. transition sessionFSM s a = Success s t) = (a \<in> set (validActions sessionFSM s)))
   \<and> (\<forall>fr t. (a, fr, t) \<in> set spec_table \<longrightarrow>
          transition sessionFSM s a =
            (if s \<in> set fr then Success s (Some t)
             else Failure s (''Cannot '' @ a @ '' from '' @ [CHR 0x27] @ s @ [CHR 0x27]
                             @ ''. Valid: '' @ join fr '', '')))
   \<and> (a \<notin> fst ` set spec_table \<longrightarrow>
          transition sessionFSM s a = Failure s (''Unknown action: '' @ a))
   \<and> (\<forall>old e st'. SessionModel_transition ident a ts (c, fs) = (TransitionFailed old e, st') \<longrightarrow>
          st' = snd (SessionModel_load ident (loadAll fs c, fs)) \<and> snd st' = fs)
   \<and> (\<forall>sess st1. SessionModel_load ident (loadAll fs c, fs) = (Some sess, st1) \<longrightarrow>
          (\<exists>fr t st'. SessionModel_transition ident a ts (c, fs) = (TransitionOk fr t, st')) =
          (a \<in> set (validActions sessionFSM (currentState_of sess))))"
  using transition_success_iff_table[of s a] transition_success_iff_valid[of s a]
        transition_listed[of a _ _ s] transition_unlisted[of a s]
        transition_failed_store[of ident a ts c fs] transition_ok_iff[of ident fs c _ _ a ts]
  by blast

theorem session_fsm_transition_spec_witness:
  "transition sessionFSM ''running'' ''complete'' = Success ''running'' (Some ''success'')
   \<and> ''complete'' \<in> set (validActions sessionFSM ''running'')
   \<and> transition sessionFSM ''success'' ''complete''
       = Failure ''success'' (''Cannot complete from '' @ [CHR 0x27] @ ''success'' @ [CHR 0x27] @ ''. Valid: running'')
   \<and> transition sessionFSM ''running'' ''bogus'' = Failure ''running'' ''Unknown action: bogus''
   \<and> snd (snd (SessionModel_transition ''1'' ''complete'' ''T'' (new_collection, example_fs ''success'' [])))
       = example_fs ''success'' []
   \<and> (\<exists>fr t st'. SessionModel_transition ''1'' ''complete'' ''T'' (new_collection, example_fs ''running'' [])
          = (TransitionOk fr t, st'))"
proof -
  have m: "(''complete'', [''running''], ''success'') \<in> set spec_table"
    by (simp add: spec_table_def)
  have n: "''bogus'' \<notin> fst ` set spec_table"
    by (simp add: spec_table_def)
  have f: "fst (SessionModel_transition ''1'' ''complete'' ''T'' (new_collection, example_fs ''success'' []))
           = TransitionFailed (Some ''success'')
               (''Cannot complete from '' @ [CHR 0x27] @ ''success'' @ [CHR 0x27] @ ''. Valid: running'')"
    by code_simp
  then have f': "SessionModel_transition ''1'' ''complete'' ''T'' (new_collection, example_fs ''success'' [])
           = (TransitionFailed (Some ''success'')
               (''Cannot complete from '' @ [CHR 0x27] @ ''success'' @ [CHR 0x27] @ ''. Valid: running''),
              snd (SessionModel_transition ''1'' ''complete'' ''T'' (new_collection, example_fs ''success'' [])))"
    by (simp add: prod_eq_iff)
  have l: "fst (SessionModel_load ''1'' (loadAll (example_fs ''running'' []) new_collection, example_fs ''running'' []))
           = Some (example_session ''running'' [])"
    by code_simp
  then have l': "SessionModel_load ''1'' (loadAll (example_fs ''running'' []) new_collection, example_fs ''running'' [])
           = (Some (example_session ''running'' []),
              snd (SessionModel_load ''1'' (loadAll (example_fs ''running'' []) new_collection, example_fs ''running'' [])))"
    by (simp add: prod_eq_iff)
  have v: "''complete'' \<in> set (validActions sessionFSM (currentState_of (example_session ''running'' [])))"
    by code_simp
  note A = session_fsm_transition_spec[of "''running''" "''complete''" "''1''" "''T''" new_collection "example_fs ''running'' []"]
  note B = session_fsm_transition_spec[of "''success''" "''complete''" "''1''" "''T''" new_collection "example_fs ''success'' []"]
  note C = session_fsm_transition_spec[of "''running''" "''bogus''" "''1''" "''T''" new_collection "example_fs ''running'' []"]
  have 1: "transition sessionFSM ''running'' ''complete'' = Success ''running'' (Some ''success'')"
    using A m by force
  have 2: "''complete'' \<in> set (validActions sessionFSM ''running'')"
    using A 1 by blast
  have 3: "transition sessionFSM ''success'' ''complete''
       = Failure ''success'' (''Cannot complete from '' @ [CHR 0x27] @ ''success'' @ [CHR 0x27] @ ''. Valid: running'')"
    using B m by force
  have 4: "transition sessionFSM ''running'' ''bogus'' = Failure ''running'' ''Unknown action: bogus''"
    using C n by simp
  have 5: "snd (snd (SessionModel_transition ''1'' ''complete'' ''T'' (new_collection, example_fs ''success'' [])))
       = example_fs ''success'' []"
    using B f' by blast
  have 6: "\<exists>fr t st'. SessionModel_transition ''1'' ''complete'' ''T'' (new_collection, example_fs ''running'' [])
          = (TransitionOk fr t, st')"
    using A l' v by blast
  show ?thesis using 1 2 3 4 5 6 by blast
qed

section \<open>Properties of the collection store\<close>

lemma save_clears_hasChanges: "\<not> hasChanges (fst (save st))"
  by (cases st) (simp add: save_def Let_def split: prod.splits)

lemma save_unchanged: "\<not> hasChanges c \<Longrightarrow> save (c, fs) = (c, fs)"
  by (simp add: save_def)

lemma loadFile_hasChanges [simp]: "hasChanges (loadFile i p fs c) = hasChanges c"
  by (simp add: loadFile_def Let_def split: option.splits)

lemma forget_hasChanges [simp]: "hasChanges (forget i c) = hasChanges c"
  by (simp add: forget_def)

lemma fold_forget_hasChanges [simp]: "hasChanges (fold forget is c) = hasChanges c"
  by (induction "is" arbitrary: c) simp_all

lemma fold_loadFile_hasChanges [simp]:
  "hasChanges (fold (\<lambda>p. loadFile (fst p) p fs) ps c) = hasChanges c"
  by (induction ps arbitrary: c) simp_all

lemma loadAll_hasChanges [simp]: "\<not> hasChanges (loadAll fs c)"
  by (simp add: loadAll_def Let_def)

lemma get_coll_hasChanges [simp]: "hasChanges (snd (get_coll i fs c)) = hasChanges c"
  by (simp add: get_coll_def Let_def split: option.splits)

lemma getAll_fold_hasChanges:
  "hasChanges (snd (fold (\<lambda>p (results, c0).
             let c' = loadFile (fst p) p fs c0
             in (case map_of (items c') (fst p) of
                   Some d \<Rightarrow> (results @ [d], c')
                 | None \<Rightarrow> (results, c'))) ps (rs, c))) = hasChanges c"
  by (induction ps arbitrary: rs c) (simp_all add: Let_def split: option.splits)

lemma getAll_hasChanges [simp]: "hasChanges (snd (getAll fs c)) = hasChanges c"
  by (simp add: getAll_def getAll_fold_hasChanges)

lemma apply_op_quiet:
  "\<not> is_set_or_delete op \<Longrightarrow> \<not> hasChanges (fst st) \<Longrightarrow>
     \<not> hasChanges (fst (apply_op op st)) \<and> snd (apply_op op st) = snd st"
  by (cases op; cases st) (simp_all add: save_unchanged)

lemma fold_apply_op_quiet:
  "\<forall>op \<in> set ops. \<not> is_set_or_delete op \<Longrightarrow> \<not> hasChanges (fst st) \<Longrightarrow>
     \<not> hasChanges (fst (fold apply_op ops st)) \<and> snd (fold apply_op ops st) = snd st"
proof (induction ops arbitrary: st)
  case Nil
  then show ?case by simp
next
  case (Cons op ops)
  from Cons.prems have q: "\<not> is_set_or_delete op" and r: "\<forall>op \<in> set ops. \<not> is_set_or_delete op"
    by simp_all
  from apply_op_quiet[OF q Cons.prems(2)] Cons.IH[OF r, of "apply_op op st"]
  show ?case by simp
qed

text \<open>
C9. \<open>save()\<close> is idempotent on the file system. After one \<open>save()\<close> the collection
  has no pending changes, so a further \<open>save()\<close> returns at once whatever the directory
  holds by then: it writes no file and unlinks none, and every file keeps its content and
  its modification time. The same holds when reads (\<open>get\<close>, \<open>list\<close>, \<open>getAll\<close>,
  \<open>loadAll\<close>) and further saves come in between, as long as no \<open>set\<close> or \<open>delete\<close> does.
\<close>

theorem save_idempotent:
  "save (fst (save st), fs') = (fst (save st), fs')
   \<and> save (save st) = save st
   \<and> ((\<forall>op \<in> set ops. \<not> is_set_or_delete op) \<longrightarrow>
        snd (fold apply_op ops (save st)) = snd (save st))"
proof -
  have h: "\<not> hasChanges (fst (save st))" by (rule save_clears_hasChanges)
  have 1: "save (fst (save st), fs') = (fst (save st), fs')" using h by (rule save_unchanged)
  have 2: "save (save st) = save st" using save_unchanged[OF h, of "snd (save st)"] by simp
  have 3: "(\<forall>op \<in> set ops. \<not> is_set_or_delete op) \<longrightarrow>
        snd (fold apply_op ops (save st)) = snd (save st)"
    using fold_apply_op_quiet[of ops "save st"] h by blast
  show ?thesis using 1 2 3 by blast
qed



theorem save_idempotent_witness:
  "snd (fold apply_op [OpSave, OpGet ''2'', OpLoadAll, OpGetAll, OpList, OpSave]
          (save (set_coll ''2'' (3::nat) new_collection, example_dir)))
   = snd (save (set_coll ''2'' 3 new_collection, example_dir))
   \<and> map_of (files (snd (save (set_coll ''2'' (3::nat) new_collection, example_dir)))) (''2'', Yml)
     = Some \<lparr>data = Some 3, mtimeMs = 9\<rparr>"
proof -
  have a: "\<forall>op \<in> set [OpSave, OpGet ''2'', OpLoadAll, OpGetAll, OpList, OpSave :: nat coll_op]. \<not> is_set_or_delete op"
    by simp
  have b: "map_of (files (snd (save (set_coll ''2'' (3::nat) new_collection, example_dir)))) (''2'', Yml)
     = Some \<lparr>data = Some 3, mtimeMs = 9\<rparr>"
    by code_simp
  from save_idempotent[of "(set_coll ''2'' (3::nat) new_collection, example_dir)" example_dir
         "[OpSave, OpGet ''2'', OpLoadAll, OpGetAll, OpList, OpSave]"] a b
  show ?thesis by blast
qed

lemma paths_okD: "paths_ok c \<Longrightarrow> (i, p) \<in> set (filePaths c) \<Longrightarrow> fst p = i"
  unfolding paths_ok_def by fastforce

lemma paths_okI: "(\<And>i p. (i, p) \<in> set (filePaths c) \<Longrightarrow> fst p = i) \<Longrightarrow> paths_ok c"
  unfolding paths_ok_def by fastforce

lemma getFilePath_fst: "paths_ok c \<Longrightarrow> fst (getFilePath c i) = i"
proof (cases "map_of (filePaths c) i")
  case None
  then show ?thesis by (simp add: getFilePath_def)
next
  case (Some p)
  assume ok: "paths_ok c"
  from Some have "(i, p) \<in> set (filePaths c)" by (rule map_of_SomeD)
  from paths_okD[OF ok this] Some show ?thesis by (simp add: getFilePath_def)
qed

lemma set_delete_subset: "set (AList.delete k al) \<subseteq> set al"
  by (auto simp: AList.delete_eq)

lemma set_update_subset: "set (AList.update k v al) \<subseteq> insert (k, v) (set al)"
  by (induction al) auto

lemma paths_ok_delete:
  "paths_ok c \<Longrightarrow> paths_ok (c\<lparr>filePaths := AList.delete d (filePaths c)\<rparr>)"
proof (rule paths_okI)
  fix i p
  assume ok: "paths_ok c"
  assume "(i, p) \<in> set (filePaths (c\<lparr>filePaths := AList.delete d (filePaths c)\<rparr>))"
  then have "(i, p) \<in> set (filePaths c)" using set_delete_subset[of d "filePaths c"] by auto
  then show "fst p = i" by (rule paths_okD[OF ok])
qed

lemma paths_ok_update:
  "paths_ok c \<Longrightarrow> fst q = d \<Longrightarrow> paths_ok (c\<lparr>filePaths := AList.update d q (filePaths c)\<rparr>)"
proof (rule paths_okI)
  fix i p
  assume ok: "paths_ok c" and q: "fst q = d"
  assume "(i, p) \<in> set (filePaths (c\<lparr>filePaths := AList.update d q (filePaths c)\<rparr>))"
  then have "(i, p) = (d, q) \<or> (i, p) \<in> set (filePaths c)"
    using set_update_subset[of d q "filePaths c"] by auto
  then show "fst p = i"
  proof
    assume "(i, p) = (d, q)"
    then show ?thesis using q by simp
  next
    assume "(i, p) \<in> set (filePaths c)"
    then show ?thesis by (rule paths_okD[OF ok])
  qed
qed

lemma save_deleted_paths_ok: "paths_ok c \<Longrightarrow> paths_ok (fst (save_deleted d (c, fs)))"
  by (simp add: save_deleted_def Let_def paths_ok_delete)

lemma save_dirty_paths_ok: "paths_ok c \<Longrightarrow> paths_ok (fst (save_dirty d (c, fs)))"
  by (simp add: save_dirty_def Let_def paths_ok_update getFilePath_fst split: option.splits)

lemma existsSync_unlink: "existsSync (unlinkSync fs q) p = (p \<noteq> q \<and> existsSync fs p)"
  by (auto simp: existsSync_def unlinkSync_def AList.delete_conv')

lemma existsSync_write: "existsSync (writeYaml q d fs) p = (p = q \<or> existsSync fs p)"
  by (auto simp: existsSync_def writeYaml_def AList.update_conv')

lemma save_deleted_no_create:
  "\<not> existsSync fs p \<Longrightarrow> \<not> existsSync (snd (save_deleted d (c, fs))) p"
  by (simp add: save_deleted_def Let_def existsSync_unlink)

lemma fold_save_deleted_no_create:
  "\<not> existsSync fs p \<Longrightarrow> \<not> existsSync (snd (fold save_deleted ds (c, fs))) p"
proof (induction ds arbitrary: c fs)
  case Nil
  then show ?case by simp
next
  case (Cons d ds)
  obtain c' fs' where s: "save_deleted d (c, fs) = (c', fs')" by (cases "save_deleted d (c, fs)")
  with save_deleted_no_create[OF Cons.prems, of d c] have "\<not> existsSync fs' p" by simp
  from Cons.IH[OF this, of c'] s show ?case by simp
qed

lemma save_deleted_other_path:
  "d \<noteq> i \<Longrightarrow> getFilePath (fst (save_deleted d (c, fs))) i = getFilePath c i"
  by (simp add: save_deleted_def Let_def getFilePath_def AList.delete_conv')

lemma fold_save_deleted_unlinks:
  "i \<in> set ds \<Longrightarrow> \<not> existsSync (snd (fold save_deleted ds (c, fs))) (getFilePath c i)"
proof (induction ds arbitrary: c fs)
  case Nil
  then show ?case by simp
next
  case (Cons d ds)
  obtain c' fs' where s: "save_deleted d (c, fs) = (c', fs')" by (cases "save_deleted d (c, fs)")
  show ?case
  proof (cases "d = i")
    case True
    have "\<not> existsSync fs' (getFilePath c i)"
      using s True by (cases "existsSync fs (getFilePath c i)")
                      (auto simp: save_deleted_def Let_def existsSync_unlink)
    from fold_save_deleted_no_create[OF this, of ds c'] s show ?thesis by simp
  next
    case False
    with Cons.prems have m: "i \<in> set ds" by simp
    have "getFilePath c' i = getFilePath c i"
      using save_deleted_other_path[OF False, of c fs] s by simp
    with Cons.IH[OF m, of c' fs'] s show ?thesis by simp
  qed
qed

lemma save_deleted_fields:
  "items (fst (save_deleted d st)) = items (fst st) \<and> dirty (fst (save_deleted d st)) = dirty (fst st)"
  by (cases st) (simp add: save_deleted_def Let_def)

lemma fold_save_deleted_fields:
  "items (fst (fold save_deleted ds st)) = items (fst st)
   \<and> dirty (fst (fold save_deleted ds st)) = dirty (fst st)"
  by (induction ds arbitrary: st) (simp_all add: save_deleted_fields)

lemma fold_save_deleted_paths_ok:
  "paths_ok (fst st) \<Longrightarrow> paths_ok (fst (fold save_deleted ds st))"
proof (induction ds arbitrary: st)
  case Nil
  then show ?case by simp
next
  case (Cons d ds)
  obtain c fs where st: "st = (c, fs)" by (cases st)
  with Cons.prems save_deleted_paths_ok[of c d fs] have "paths_ok (fst (save_deleted d st))" by simp
  from Cons.IH[OF this] show ?case by simp
qed

lemma save_deleted_forgets:
  "map_of (filePaths (fst (save_deleted d (c, fs)))) i = (if i = d then None else map_of (filePaths c) i)"
  by (simp add: save_deleted_def Let_def AList.delete_conv')

lemma fold_save_deleted_forgets:
  "map_of (filePaths (fst (fold save_deleted ds (c, fs)))) i
     = (if i \<in> set ds then None else map_of (filePaths c) i)"
proof (induction ds arbitrary: c fs)
  case Nil
  then show ?case by simp
next
  case (Cons d ds)
  obtain c' fs' where s: "save_deleted d (c, fs) = (c', fs')" by (cases "save_deleted d (c, fs)")
  from Cons.IH[of c' fs'] save_deleted_forgets[of d c fs i] s show ?case by auto
qed

lemma save_dirty_other:
  assumes "paths_ok c" "d \<noteq> i" "fst p = i"
  shows "existsSync (snd (save_dirty d (c, fs))) p = existsSync fs p
         \<and> map_of (filePaths (fst (save_dirty d (c, fs)))) i = map_of (filePaths c) i"
  using assms getFilePath_fst[OF assms(1), of d]
  by (auto simp: save_dirty_def Let_def existsSync_write AList.update_conv' split: option.splits)

lemma fold_save_dirty_other:
  "paths_ok c \<Longrightarrow> i \<notin> set ds \<Longrightarrow> fst p = i \<Longrightarrow>
     existsSync (snd (fold save_dirty ds (c, fs))) p = existsSync fs p
     \<and> map_of (filePaths (fst (fold save_dirty ds (c, fs)))) i = map_of (filePaths c) i"
proof (induction ds arbitrary: c fs)
  case Nil
  then show ?case by simp
next
  case (Cons d ds)
  obtain c' fs' where s: "save_dirty d (c, fs) = (c', fs')" by (cases "save_dirty d (c, fs)")
  from Cons.prems have di: "d \<noteq> i" and nds: "i \<notin> set ds" by auto
  have ok': "paths_ok c'" using save_dirty_paths_ok[OF Cons.prems(1), of d fs] s by simp
  from save_dirty_other[OF Cons.prems(1) di Cons.prems(3), of fs] s
       Cons.IH[OF ok' nds Cons.prems(3), of fs']
  show ?case by simp
qed

lemma paths_ok_cong: "filePaths c' = filePaths c \<Longrightarrow> paths_ok c' = paths_ok c"
  by (simp add: paths_ok_def)

lemma getFilePath_cong: "filePaths c' = filePaths c \<Longrightarrow> getFilePath c' i = getFilePath c i"
  by (simp add: getFilePath_def)

lemma save_after_tombstone:
  assumes ok: "paths_ok c" and ch: "hasChanges c" and del: "i \<in> set (deleted c)"
      and nd: "i \<notin> set (dirty c)"
  shows "\<not> existsSync (snd (save (c, fs))) (getFilePath c i)
         \<and> map_of (filePaths (fst (save (c, fs)))) i = None"
proof -
  obtain c1 fs1 where f1: "fold save_deleted (deleted c) (c, fs) = (c1, fs1)"
    by (cases "fold save_deleted (deleted c) (c, fs)")
  define c2 where "c2 = c1\<lparr>deleted := []\<rparr>"
  obtain c3 fs3 where f3: "fold save_dirty (dirty c2) (c2, fs1) = (c3, fs3)"
    by (cases "fold save_dirty (dirty c2) (c2, fs1)")
  have sv: "save (c, fs) = (c3\<lparr>dirty := [], hasChanges := False\<rparr>, fs3)"
    using ch f1 f3 by (simp add: save_def Let_def c2_def)
  have gone1: "\<not> existsSync fs1 (getFilePath c i)"
    using fold_save_deleted_unlinks[OF del, of c fs] f1 by simp
  have forgot1: "map_of (filePaths c1) i = None"
    using fold_save_deleted_forgets[of "deleted c" c fs i] del f1 by simp
  have ok1: "paths_ok c1"
    using fold_save_deleted_paths_ok[of "(c, fs)" "deleted c"] ok f1 by simp
  have ok2: "paths_ok c2"
    using ok1 by (simp add: c2_def paths_ok_def)
  have d2: "dirty c2 = dirty c"
    using fold_save_deleted_fields[of "deleted c" "(c, fs)"] f1 by (simp add: c2_def)
  have nd2: "i \<notin> set (dirty c2)" using nd d2 by simp
  have fp: "fst (getFilePath c i) = i" by (rule getFilePath_fst[OF ok])
  from fold_save_dirty_other[OF ok2 nd2 fp, of fs1] f3
  have "existsSync fs3 (getFilePath c i) = existsSync fs1 (getFilePath c i)"
    and "map_of (filePaths c3) i = map_of (filePaths c2) i" by simp_all
  then show ?thesis using sv gone1 forgot1 by (simp add: c2_def)
qed

text \<open>
  What \<open>delete\<close> and the next \<open>save\<close> do for an id the collection has cached (the id is
  in \<open>items\<close> or in \<open>filePaths\<close>) when nothing comes in between: the id leaves \<open>items\<close>
  and the file at its recorded path is removed. An id that is not cached is left alone.
\<close>

lemma delete_then_save_of_cached_id:
  "(paths_ok c \<and> (map_of (items c) i \<noteq> None \<or> map_of (filePaths c) i \<noteq> None) \<longrightarrow>
      fst (delete_coll i c) = True
      \<and> map_of (items (snd (delete_coll i c))) i = None
      \<and> \<not> existsSync (snd (save (snd (delete_coll i c), fs))) (getFilePath c i)
      \<and> map_of (filePaths (fst (save (snd (delete_coll i c), fs)))) i = None)
   \<and> (map_of (items c) i = None \<and> map_of (filePaths c) i = None \<longrightarrow>
      delete_coll i c = (False, c))"
proof (intro conjI impI)
  assume a: "paths_ok c \<and> (map_of (items c) i \<noteq> None \<or> map_of (filePaths c) i \<noteq> None)"
  define c' where "c' = snd (delete_coll i c)"
  have c': "c' = c\<lparr>items := AList.delete i (items c), deleted := set_add i (deleted c),
                    dirty := removeAll i (dirty c), hasChanges := True\<rparr>"
    using a by (auto simp: c'_def delete_coll_def)
  show "fst (delete_coll i c) = True" using a by (auto simp: delete_coll_def)
  show "map_of (items (snd (delete_coll i c))) i = None"
    using c' by (simp add: c'_def[symmetric] AList.delete_conv')
  have ok': "paths_ok c'" using a c' by (simp add: paths_ok_def)
  have ch: "hasChanges c'" using c' by simp
  have del: "i \<in> set (deleted c')" using c' by (simp add: set_add_def)
  have nd: "i \<notin> set (dirty c')" using c' by simp
  have g: "getFilePath c' i = getFilePath c i" using c' by (simp add: getFilePath_def)
  from save_after_tombstone[OF ok' ch del nd, of fs] g
  show "\<not> existsSync (snd (save (snd (delete_coll i c), fs))) (getFilePath c i)"
    and "map_of (filePaths (fst (save (snd (delete_coll i c), fs)))) i = None"
    by (simp_all add: c'_def)
next
  assume "map_of (items c) i = None \<and> map_of (filePaths c) i = None"
  then show "delete_coll i c = (False, c)" by (simp add: delete_coll_def)
qed

text \<open>
  C8, at the inputs where the code departs from it. The claim: for every id whose record
  file \<open><id>.yml\<close> exists in the directory, \<open>delete(id)\<close> returns true, the record leaves
  the in-memory view at once, and the next \<open>save()\<close> deletes the file. The directory holds
  \<open>1.yml\<close> and the collection has not loaded it: \<open>delete('1')\<close> returns false and the
  file is still there after \<open>save()\<close>; so \<open>clean()\<close>, which deletes every listed id and
  saves, leaves the directory as it was. For a record that was set and saved, \<open>delete\<close>
  returns true, yet the next \<open>get\<close> reads the record back from its file. And a
  \<open>loadAll()\<close> between \<open>delete\<close> and \<open>save()\<close> drops the tombstone, so that the file
  stays.
\<close>

theorem delete_misses_unloaded_record:
  "existsSync example_dir (''1'', Yml)
   \<and> fst (delete_coll ''1'' (new_collection :: nat collection)) = False
   \<and> existsSync (snd (save (snd (delete_coll ''1'' new_collection), example_dir))) (''1'', Yml)
   \<and> list_coll example_dir = [''1'']
   \<and> files (snd (clean_collection (new_collection, example_dir))) = files example_dir
   \<and> fst (delete_coll ''2'' (fst (save (set_coll ''2'' 3 new_collection, example_dir)))) = True
   \<and> fst (get_coll ''2'' (snd (save (set_coll ''2'' 3 new_collection, example_dir)))
             (snd (delete_coll ''2'' (fst (save (set_coll ''2'' 3 new_collection, example_dir))))))
       = Some 3
   \<and> fst (delete_coll ''1'' (snd (get_coll ''1'' example_dir new_collection))) = True
   \<and> existsSync
         (snd (save (loadAll example_dir
                       (snd (delete_coll ''1'' (snd (get_coll ''1'' example_dir new_collection)))),
                     example_dir)))
         (''1'', Yml)"
  by code_simp

theorem delete_misses_unloaded_record_witness:
  "\<not> fst (delete_coll ''1'' (new_collection :: nat collection))
   \<and> map_of (files (snd (clean_collection (new_collection, example_dir)))) (''1'', Yml)
       = Some \<lparr>data = Some 7, mtimeMs = 5\<rparr>"
proof -
  have f: "files example_dir = [((''1'', Yml), \<lparr>data = Some 7, mtimeMs = 5\<rparr>)]"
    by (simp add: example_dir_def)
  from delete_misses_unloaded_record f show ?thesis by simp
qed

lemma loadFile_paths_ok: "paths_ok c \<Longrightarrow> fst p = i \<Longrightarrow> paths_ok (loadFile i p fs c)"
proof -
  assume ok: "paths_ok c" and p: "fst p = i"
  have u: "paths_ok (c\<lparr>filePaths := AList.update i p (filePaths c)\<rparr>)"
    by (rule paths_ok_update[OF ok p])
  have "\<And>d t. paths_ok (c\<lparr>items := AList.update i d (items c),
                lastReadTs := AList.update i t (lastReadTs c),
                filePaths := AList.update i p (filePaths c)\<rparr>)"
    using u by (simp add: paths_ok_def)
  then show ?thesis using ok u by (simp add: loadFile_def Let_def split: option.splits)
qed

lemma fold_loadFile_paths_ok:
  "paths_ok c \<Longrightarrow> paths_ok (fold (\<lambda>p. loadFile (fst p) p fs) ps c)"
  by (induction ps arbitrary: c) (simp_all add: loadFile_paths_ok)

lemma forget_paths_ok: "paths_ok c \<Longrightarrow> paths_ok (forget i c)"
  using paths_ok_delete[of c i] by (simp add: forget_def paths_ok_def)

lemma fold_forget_paths_ok: "paths_ok c \<Longrightarrow> paths_ok (fold forget is c)"
  by (induction "is" arbitrary: c) (simp_all add: forget_paths_ok)

lemma loadAll_paths_ok: "paths_ok c \<Longrightarrow> paths_ok (loadAll fs c)"
proof -
  assume ok: "paths_ok c"
  then have "paths_ok (c\<lparr>dirty := [], deleted := [], hasChanges := False\<rparr>)"
    by (simp add: paths_ok_def)
  then show ?thesis
    by (simp add: loadAll_def Let_def fold_forget_paths_ok fold_loadFile_paths_ok)
qed

lemma get_coll_paths_ok: "paths_ok c \<Longrightarrow> paths_ok (snd (get_coll i fs c))"
proof (cases "map_of (filePaths c) i")
  case None
  assume "paths_ok c"
  then show ?thesis using None by (simp add: get_coll_def Let_def loadFile_paths_ok)
next
  case (Some p)
  assume ok: "paths_ok c"
  from Some have "(i, p) \<in> set (filePaths c)" by (rule map_of_SomeD)
  from paths_okD[OF ok this] ok Some show ?thesis
    by (simp add: get_coll_def Let_def loadFile_paths_ok)
qed

lemma getAll_fold_paths_ok:
  "paths_ok c \<Longrightarrow> paths_ok (snd (fold (\<lambda>p (results, c0).
             let c' = loadFile (fst p) p fs c0
             in (case map_of (items c') (fst p) of
                   Some d \<Rightarrow> (results @ [d], c')
                 | None \<Rightarrow> (results, c'))) ps (rs, c)))"
  by (induction ps arbitrary: rs c) (simp_all add: Let_def loadFile_paths_ok split: option.splits)

lemma getAll_paths_ok: "paths_ok c \<Longrightarrow> paths_ok (snd (getAll fs c))"
  by (simp add: getAll_def getAll_fold_paths_ok)

lemma fold_save_dirty_paths_ok:
  "paths_ok (fst st) \<Longrightarrow> paths_ok (fst (fold save_dirty ds st))"
proof (induction ds arbitrary: st)
  case Nil
  then show ?case by simp
next
  case (Cons d ds)
  obtain c fs where st: "st = (c, fs)" by (cases st)
  with Cons.prems save_dirty_paths_ok[of c d fs] have "paths_ok (fst (save_dirty d st))" by simp
  from Cons.IH[OF this] show ?case by simp
qed

lemma save_paths_ok: "paths_ok (fst st) \<Longrightarrow> paths_ok (fst (save st))"
proof -
  assume ok: "paths_ok (fst st)"
  obtain c fs where st: "st = (c, fs)" by (cases st)
  obtain c1 fs1 where f1: "fold save_deleted (deleted c) (c, fs) = (c1, fs1)"
    by (cases "fold save_deleted (deleted c) (c, fs)")
  obtain c3 fs3 where f3: "fold save_dirty (dirty c1) (c1\<lparr>deleted := []\<rparr>, fs1) = (c3, fs3)"
    by (cases "fold save_dirty (dirty c1) (c1\<lparr>deleted := []\<rparr>, fs1)")
  have "paths_ok c1" using fold_save_deleted_paths_ok[of "(c, fs)" "deleted c"] ok st f1 by simp
  then have "paths_ok (c1\<lparr>deleted := []\<rparr>)" by (simp add: paths_ok_def)
  then have "paths_ok c3"
    using fold_save_dirty_paths_ok[of "(c1\<lparr>deleted := []\<rparr>, fs1)" "dirty c1"] f3 by simp
  then have "paths_ok (c3\<lparr>dirty := [], hasChanges := False\<rparr>)" by (simp add: paths_ok_def)
  then show ?thesis using ok st f1 f3 by (simp add: save_def Let_def)
qed

lemma apply_op_paths_ok: "paths_ok (fst st) \<Longrightarrow> paths_ok (fst (apply_op op st))"
proof (cases st)
  case (Pair c fs)
  assume ok: "paths_ok (fst st)"
  then have okc: "paths_ok c" using Pair by simp
  show ?thesis
  proof (cases op)
    case (OpGet i)
    then show ?thesis using Pair okc by (simp add: get_coll_paths_ok)
  next
    case (OpSet i d)
    then show ?thesis using Pair okc by (simp add: set_coll_def paths_ok_def)
  next
    case (OpDelete i)
    then show ?thesis using Pair okc by (simp add: delete_coll_def paths_ok_def)
  next
    case OpList
    then show ?thesis using Pair okc by simp
  next
    case OpGetAll
    then show ?thesis using Pair okc by (simp add: getAll_paths_ok)
  next
    case OpLoadAll
    then show ?thesis using Pair okc by (simp add: loadAll_paths_ok)
  next
    case OpSave
    then show ?thesis using Pair ok save_paths_ok[of st] by simp
  qed
qed

lemma reachable_paths_ok: "paths_ok (fst (fold apply_op ops (new_collection, fs)))"
proof -
  have "paths_ok (fst st) \<Longrightarrow> paths_ok (fst (fold apply_op ops st))" for st :: "'a collection \<times> 'a filesys"
    by (induction ops arbitrary: st) (simp_all add: apply_op_paths_ok)
  moreover have "paths_ok (new_collection :: 'a collection)"
    by (simp add: paths_ok_def new_collection_def)
  ultimately show ?thesis by simp
qed


section \<open>Properties of resumable tool calls\<close>

lemma executeToolLocally_running:
  assumes "reg toolName = Some h" "h args ctx tcs = (Returns result, logs, tcs1)"
      and "get_prop result ''status'' = Inr (JStr RUNNING)" "map_of tcs1 toolCallId = Some e"
  shows "executeToolLocally reg toolName args ctx toolCallId tcs =
           (result,
            AList.update toolCallId
              (e\<lparr>e_state := (if truthy (opt_prop result ''state'') then opt_prop result ''state''
                              else e_state e),
                 e_status := RUNNING\<rparr>) tcs1)"
  using assms by (simp add: executeToolLocally_def js_or_def)

lemma executeToolLocally_done:
  assumes "reg toolName = Some h" "h args ctx tcs = (Returns result, logs, tcs1)"
      and "get_prop result ''status'' = Inr st" "st \<noteq> JStr RUNNING"
  shows "executeToolLocally reg toolName args ctx toolCallId tcs
           = (result, AList.delete toolCallId tcs1)"
  using assms by (simp add: executeToolLocally_def)

lemma executeToolLocally_threw:
  assumes "reg toolName = Some h" "h args ctx tcs = (Throws msg, logs, tcs1)"
  shows "executeToolLocally reg toolName args ctx toolCallId tcs
           = (failure_result (''Tool execution error: '' @ msg), AList.delete toolCallId tcs1)"
  using assms by (simp add: executeToolLocally_def)

lemma handleToolCall_passes_entry:
  assumes "map_of tcs (msg_toolCallId message) = Some e"
      and "\<not> (isContainer \<and> (case findToolDefinition pl (msg_toolName message) of
                                 Some toolDef \<Rightarrow> requiresHostExecution toolDef | None \<Rightarrow> False))"
  shows "handleToolCall isContainer pl reg sendToHost message ctx tcs =
           (Returns (fst (executeToolLocally reg (msg_toolName message) (msg_args message)
                       (ctx\<lparr>ctx_sessionId := JStr (msg_sessionId message),
                                ctx_toolCallId := JStr (msg_toolCallId message),
                                ctx_state := e_state e,
                                ctx_externalData := e_externalData e\<rparr>)
                       (msg_toolCallId message) tcs)),
            snd (executeToolLocally reg (msg_toolName message) (msg_args message)
                       (ctx\<lparr>ctx_sessionId := JStr (msg_sessionId message),
                                ctx_toolCallId := JStr (msg_toolCallId message),
                                ctx_state := e_state e,
                                ctx_externalData := e_externalData e\<rparr>)
                       (msg_toolCallId message) tcs))"
  using assms by (auto simp: handleToolCall_def Let_def split: prod.splits option.splits)

lemma handleApprovalResponse_injects:
  assumes "map_of tcs toolCallId = Some e"
  shows "map_of (fst (handleApprovalResponse toolCallId choice explanation ts (tcs, st))) toolCallId
           = Some (e\<lparr>e_externalData :=
                       JObj [(''approvalReceived'', JBool True), (''choice'', choice),
                             (''explanation'', explanation)]\<rparr>)"
  using assms by (simp add: handleApprovalResponse_def AList.update_conv')

text \<open>
C5, as amended. For a tool invocation that runs in this process (\<open>executeToolLocally\<close>):
  when the handler returns \<open>{status: 'running', state: S}\<close> and the entry of the tool call
  is still in \<open>toolCallStates\<close>, the entry is kept with status running and with state
  \<open>S\<close> if \<open>S\<close> is truthy, and with its previous state if \<open>S\<close> is falsy (absent, null,
  0, the empty string, false). When the handler returns any other status, or throws, the
  entry is removed. An approval response injects \<open>externalData\<close> into the entry, and the
  next \<open>handleToolCall\<close> of the same id that runs locally calls the handler with the
  entry's state and external data.
\<close>

theorem tool_call_state_retained:
  "(reg toolName = Some h \<and> h args ctx tcs = (Returns result, logs, tcs1)
      \<and> get_prop result ''status'' = Inr (JStr RUNNING) \<and> map_of tcs1 toolCallId = Some e \<longrightarrow>
        executeToolLocally reg toolName args ctx toolCallId tcs =
           (result,
            AList.update toolCallId
              (e\<lparr>e_state := (if truthy (opt_prop result ''state'') then opt_prop result ''state''
                              else e_state e),
                 e_status := RUNNING\<rparr>) tcs1))
   \<and> (reg toolName = Some h \<and> h args ctx tcs = (Returns result, logs, tcs1)
      \<and> get_prop result ''status'' = Inr st \<and> st \<noteq> JStr RUNNING \<longrightarrow>
        executeToolLocally reg toolName args ctx toolCallId tcs
           = (result, AList.delete toolCallId tcs1)
        \<and> map_of (snd (executeToolLocally reg toolName args ctx toolCallId tcs)) toolCallId = None)
   \<and> (reg toolName = Some h \<and> h args ctx tcs = (Throws msg, logs, tcs1) \<longrightarrow>
        map_of (snd (executeToolLocally reg toolName args ctx toolCallId tcs)) toolCallId = None)
   \<and> (map_of tcs2 toolCallId = Some e2 \<longrightarrow>
        map_of (fst (handleApprovalResponse toolCallId choice explanation ts (tcs2, store0))) toolCallId
           = Some (e2\<lparr>e_externalData :=
                       JObj [(''approvalReceived'', JBool True), (''choice'', choice),
                             (''explanation'', explanation)]\<rparr>))
   \<and> (map_of tcs3 (msg_toolCallId message) = Some e3
      \<and> \<not> (isContainer \<and> (case findToolDefinition pl (msg_toolName message) of
                                 Some toolDef \<Rightarrow> requiresHostExecution toolDef | None \<Rightarrow> False)) \<longrightarrow>
        handleToolCall isContainer pl reg sendToHost message context3 tcs3 =
           (Returns (fst (executeToolLocally reg (msg_toolName message) (msg_args message)
                       (context3\<lparr>ctx_sessionId := JStr (msg_sessionId message),
                                ctx_toolCallId := JStr (msg_toolCallId message),
                                ctx_state := e_state e3,
                                ctx_externalData := e_externalData e3\<rparr>)
                       (msg_toolCallId message) tcs3)),
            snd (executeToolLocally reg (msg_toolName message) (msg_args message)
                       (context3\<lparr>ctx_sessionId := JStr (msg_sessionId message),
                                ctx_toolCallId := JStr (msg_toolCallId message),
                                ctx_state := e_state e3,
                                ctx_externalData := e_externalData e3\<rparr>)
                       (msg_toolCallId message) tcs3)))"
proof (intro conjI impI)
  assume a: "reg toolName = Some h \<and> h args ctx tcs = (Returns result, logs, tcs1)
      \<and> get_prop result ''status'' = Inr (JStr RUNNING) \<and> map_of tcs1 toolCallId = Some e"
  then show "executeToolLocally reg toolName args ctx toolCallId tcs =
           (result,
            AList.update toolCallId
              (e\<lparr>e_state := (if truthy (opt_prop result ''state'') then opt_prop result ''state''
                              else e_state e),
                 e_status := RUNNING\<rparr>) tcs1)"
    using executeToolLocally_running[of reg toolName h args ctx tcs result logs tcs1 toolCallId e]
    by blast
next
  assume a: "reg toolName = Some h \<and> h args ctx tcs = (Returns result, logs, tcs1)
      \<and> get_prop result ''status'' = Inr st \<and> st \<noteq> JStr RUNNING"
  then show d: "executeToolLocally reg toolName args ctx toolCallId tcs
           = (result, AList.delete toolCallId tcs1)"
    using executeToolLocally_done[of reg toolName h args ctx tcs result logs tcs1 st toolCallId]
    by blast
  then show "map_of (snd (executeToolLocally reg toolName args ctx toolCallId tcs)) toolCallId = None"
    by (simp add: AList.delete_conv')
next
  assume "reg toolName = Some h \<and> h args ctx tcs = (Throws msg, logs, tcs1)"
  then show "map_of (snd (executeToolLocally reg toolName args ctx toolCallId tcs)) toolCallId = None"
    using executeToolLocally_threw[of reg toolName h args ctx tcs msg logs tcs1 toolCallId]
    by (simp add: AList.delete_conv')
next
  assume "map_of tcs2 toolCallId = Some e2"
  then show "map_of (fst (handleApprovalResponse toolCallId choice explanation ts (tcs2, store0))) toolCallId
           = Some (e2\<lparr>e_externalData :=
                       JObj [(''approvalReceived'', JBool True), (''choice'', choice),
                             (''explanation'', explanation)]\<rparr>)"
    by (rule handleApprovalResponse_injects)
next
  assume "map_of tcs3 (msg_toolCallId message) = Some e3
      \<and> \<not> (isContainer \<and> (case findToolDefinition pl (msg_toolName message) of
                                 Some toolDef \<Rightarrow> requiresHostExecution toolDef | None \<Rightarrow> False))"
  then show "handleToolCall isContainer pl reg sendToHost message context3 tcs3 =
           (Returns (fst (executeToolLocally reg (msg_toolName message) (msg_args message)
                       (context3\<lparr>ctx_sessionId := JStr (msg_sessionId message),
                                ctx_toolCallId := JStr (msg_toolCallId message),
                                ctx_state := e_state e3,
                                ctx_externalData := e_externalData e3\<rparr>)
                       (msg_toolCallId message) tcs3)),
            snd (executeToolLocally reg (msg_toolName message) (msg_args message)
                       (context3\<lparr>ctx_sessionId := JStr (msg_sessionId message),
                                ctx_toolCallId := JStr (msg_toolCallId message),
                                ctx_state := e_state e3,
                                ctx_externalData := e_externalData e3\<rparr>)
                       (msg_toolCallId message) tcs3))"
    using handleToolCall_passes_entry[of tcs3 message e3 isContainer pl reg sendToHost context3]
    by blast
qed

text \<open>
C5 as stated fails for a falsy state: a handler answers \<open>{status: 'running', state: 0}\<close>
  on a fresh tool call, and the entry keeps the state \<open>{}\<close> it was created with.
\<close>

theorem falsy_state_not_retained_counterexample:
  "fst (handleToolCall False [] [''tool'' \<mapsto> running_handler (JNum 0)] not_connected
          example_msg empty_ctx [])
     = Returns (JObj [(''status'', JStr ''running''), (''state'', JNum 0)])
   \<and> map_of (snd (handleToolCall False [] [''tool'' \<mapsto> running_handler (JNum 0)] not_connected
          example_msg empty_ctx [])) ''T''
     = Some \<lparr>e_status = ''running'', e_state = JObj [], e_context_sessionId = ''1'',
             e_context_toolCallId = ''T'', e_externalData = JUndefined\<rparr>
   \<and> JObj [] \<noteq> JNum 0"
  by (simp add: handleToolCall_def executeToolLocally_def running_handler_def example_msg_def
        empty_ctx_def js_or_def RUNNING_def IDLE_def Let_def)

theorem tool_call_state_retained_witness:
  "snd (handleToolCall False [] [''tool'' \<mapsto> two_phase_handler] not_connected example_msg empty_ctx
          [(''T'', example_entry ''idle'' (JObj []) JUndefined)])
     = [(''T'', example_entry ''running'' (JObj [(''phase'', JStr ''awaiting_approval'')]) JUndefined)]
   \<and> map_of (fst (handleApprovalResponse ''T'' (JStr ''APPROVE'') (JStr ''ok'') ''now''
         ([(''T'', example_entry ''running'' (JObj [(''phase'', JStr ''awaiting_approval'')]) JUndefined)],
          (new_collection, example_fs ''paused'' [])))) ''T''
     = Some (example_entry ''running'' (JObj [(''phase'', JStr ''awaiting_approval'')])
               (JObj [(''approvalReceived'', JBool True), (''choice'', JStr ''APPROVE''),
                      (''explanation'', JStr ''ok'')]))
   \<and> handleToolCall False [] [''tool'' \<mapsto> two_phase_handler] not_connected example_msg empty_ctx
         [(''T'', example_entry ''running'' (JObj [(''phase'', JStr ''awaiting_approval'')])
               (JObj [(''approvalReceived'', JBool True), (''choice'', JStr ''APPROVE''),
                      (''explanation'', JStr ''ok'')]))]
     = (Returns (JObj [(''status'', JStr ''success''),
                       (''result'', JArr [JObj [(''phase'', JStr ''awaiting_approval'')],
                                          JObj [(''approvalReceived'', JBool True),
                                                (''choice'', JStr ''APPROVE''),
                                                (''explanation'', JStr ''ok'')]])]),
        [])
   \<and> map_of (snd (executeToolLocally [''tool'' \<mapsto> throwing_handler] ''tool'' (ArgObj (JObj [])) empty_ctx ''T''
         [(''T'', example_entry ''idle'' (JObj []) JUndefined)])) ''T'' = None"
proof -
  let ?S = "JObj [(''phase'', JStr ''awaiting_approval'')]"
  let ?X = "JObj [(''approvalReceived'', JBool True), (''choice'', JStr ''APPROVE''),
                  (''explanation'', JStr ''ok'')]"
  let ?reg = "[''tool'' \<mapsto> two_phase_handler]"
  let ?t0 = "[(''T'', example_entry ''idle'' (JObj []) JUndefined)]"
  let ?tA = "[(''T'', example_entry ''running'' ?S JUndefined)]"
  let ?tB = "[(''T'', example_entry ''running'' ?S ?X)]"
  let ?ctxA = "empty_ctx\<lparr>ctx_sessionId := JStr ''1'', ctx_toolCallId := JStr ''T'',
                         ctx_state := JObj [], ctx_externalData := JUndefined\<rparr>"
  let ?ctxB = "empty_ctx\<lparr>ctx_sessionId := JStr ''1'', ctx_toolCallId := JStr ''T'',
                         ctx_state := ?S, ctx_externalData := ?X\<rparr>"
  let ?run = "JObj [(''status'', JStr ''running''), (''state'', ?S)]"
  let ?ok = "JObj [(''status'', JStr ''success''), (''result'', JArr [?S, ?X])]"
  note defs = example_entry_def example_msg_def empty_ctx_def two_phase_handler_def
              throwing_handler_def RUNNING_def
  have first_call:
    "executeToolLocally ?reg ''tool'' (ArgObj (JObj [])) ?ctxA ''T'' ?t0 = (?run, ?tA)"
    using tool_call_state_retained[of ?reg "''tool''" two_phase_handler "ArgObj (JObj [])" ?ctxA ?t0
            ?run "[]" ?t0 "''T''" "example_entry ''idle'' (JObj []) JUndefined"]
    by (simp add: defs)
  have entry0: "map_of ?t0 (msg_toolCallId example_msg) = Some (example_entry ''idle'' (JObj []) JUndefined)"
    by (simp add: defs)
  have 1: "snd (handleToolCall False [] ?reg not_connected example_msg empty_ctx ?t0) = ?tA"
    using tool_call_state_retained[where ?tcs3.0 = ?t0 and message = example_msg
            and ?e3.0 = "example_entry ''idle'' (JObj []) JUndefined" and isContainer = False
            and pl = "[]" and reg = ?reg and ?context3.0 = empty_ctx and sendToHost = not_connected]
          entry0 first_call
    by (simp add: defs)
  have 2: "map_of (fst (handleApprovalResponse ''T'' (JStr ''APPROVE'') (JStr ''ok'') ''now''
               (?tA, (new_collection, example_fs ''paused'' [])))) ''T''
           = Some (example_entry ''running'' ?S ?X)"
    using tool_call_state_retained[where ?tcs2.0 = ?tA and toolCallId = "''T''"
            and ?e2.0 = "example_entry ''running'' ?S JUndefined" and choice = "JStr ''APPROVE''"
            and explanation = "JStr ''ok''" and ts = "''now''"
            and ?store0.0 = "(new_collection, example_fs ''paused'' [])"]
    by (simp add: defs)
  have second_call:
    "executeToolLocally ?reg ''tool'' (ArgObj (JObj [])) ?ctxB ''T'' ?tB = (?ok, [])"
    using tool_call_state_retained[of ?reg "''tool''" two_phase_handler "ArgObj (JObj [])" ?ctxB ?tB
            ?ok "[]" ?tB _ _ "JStr ''success''" "''T''"]
    by (simp add: defs)
  have entryB: "map_of ?tB (msg_toolCallId example_msg) = Some (example_entry ''running'' ?S ?X)"
    by (simp add: defs)
  have 3: "handleToolCall False [] ?reg not_connected example_msg empty_ctx ?tB = (Returns ?ok, [])"
    using tool_call_state_retained[where ?tcs3.0 = ?tB and message = example_msg
            and ?e3.0 = "example_entry ''running'' ?S ?X" and isContainer = False
            and pl = "[]" and reg = ?reg and ?context3.0 = empty_ctx and sendToHost = not_connected]
          entryB second_call
    by (simp add: defs)
  have 4: "map_of (snd (executeToolLocally [''tool'' \<mapsto> throwing_handler] ''tool'' (ArgObj (JObj []))
                     empty_ctx ''T'' ?t0)) ''T'' = None"
    using tool_call_state_retained[where reg = "[''tool'' \<mapsto> throwing_handler]" and toolName = "''tool''"
            and h = throwing_handler and args = "ArgObj (JObj [])" and ctx = empty_ctx
            and tcs = ?t0 and msg = "''boom''" and logs = "[]" and ?tcs1.0 = ?t0 and toolCallId = "''T''"]
    by (simp add: defs)
  show ?thesis using 1 2 3 4 by blast
qed


section \<open>Properties of command dispatch\<close>

lemma fromHost_response_no_status:
  assumes "reg cmd = Some h" "h args hctx tcs = (Returns result, logs, tcs')"
      and "opt_prop result ''status'' \<noteq> JStr ''success''"
      and "opt_prop result ''status'' \<noteq> JStr ''failure''"
      and "opt_prop result ''status'' \<noteq> JStr ''error''"
  shows "fromHost_response debugLog reg message cmd args hctx tcs =
          (\<lparr>resp_messageId = cm_messageId message, resp_success = False,
            resp_result =
              JStr (let output = join ((if debugLog
                          then [''[handleCommand] Executing handler for '' @ [CHR 0x22] @ cmd @ [CHR 0x22]]
                          else []) @ logs) [CHR 0x0A]
                    in if output \<noteq> [] then output
                       else ''Tool execution failed: No status returned''),
            resp_error = opt_prop result ''error'', resp_type = ''command_response''\<rparr>, tcs')"
  using assms
  by (simp add: fromHost_response_def Let_def js_or_def SUCCESS_def FAILURE_def)

text \<open>
C10. For a command forwarded from the host (\<open>message.fromHost\<close>) that parses and
  resolves to a registered handler: when the handler returns a value whose \<open>status\<close> is
  none of \<open>'success'\<close>, \<open>'failure'\<close> and \<open>'error'\<close> (a plain value, \<open>undefined\<close>, a
  running result), the \<open>command_response\<close> has \<open>success = false\<close>, and its \<open>result\<close> is the
  captured log output joined by newlines or, when that is empty, the text
  \<open>Tool execution failed: No status returned\<close>.
\<close>

theorem forwarded_command_without_status_fails:
  "cm_fromHost message \<and> parsed = Some p
   \<and> r_error (resolveCommand pl reg parsed) = None
   \<and> r_cmd (resolveCommand pl reg parsed) = Some cmd
   \<and> r_args (resolveCommand pl reg parsed) = Some args
   \<and> reg cmd = Some h
   \<and> h args \<lparr>ctx_sessionId = JNum (if (case r_toolDef (resolveCommand pl reg parsed) of
                                          Some toolDef \<Rightarrow> localCommand toolDef | None \<Rightarrow> False)
                                      then 0 else currentSession),
               ctx_toolCallId = JUndefined, ctx_state = JUndefined, ctx_externalData = JUndefined,
               ctx_procId = (if truthy (cm_procId message) then cm_procId message
                             else ctx_procId ctx)\<rparr> tcs
       = (Returns result, logs, tcs')
   \<and> opt_prop result ''status'' \<noteq> JStr ''success''
   \<and> opt_prop result ''status'' \<noteq> JStr ''failure''
   \<and> opt_prop result ''status'' \<noteq> JStr ''error''
   \<longrightarrow>
   handleCommand debugLog pl reg parsed message currentSession ctx tcs =
     (Responded
        \<lparr>resp_messageId = cm_messageId message, resp_success = False,
         resp_result =
           JStr (let output = join ((if debugLog
                       then [''[handleCommand] Executing handler for '' @ [CHR 0x22] @ cmd @ [CHR 0x22]]
                       else []) @ logs) [CHR 0x0A]
                 in if output \<noteq> [] then output
                    else ''Tool execution failed: No status returned''),
         resp_error = opt_prop result ''error'', resp_type = ''command_response''\<rparr>, tcs')"
proof
  assume a: "cm_fromHost message \<and> parsed = Some p
   \<and> r_error (resolveCommand pl reg parsed) = None
   \<and> r_cmd (resolveCommand pl reg parsed) = Some cmd
   \<and> r_args (resolveCommand pl reg parsed) = Some args
   \<and> reg cmd = Some h
   \<and> h args \<lparr>ctx_sessionId = JNum (if (case r_toolDef (resolveCommand pl reg parsed) of
                                          Some toolDef \<Rightarrow> localCommand toolDef | None \<Rightarrow> False)
                                      then 0 else currentSession),
               ctx_toolCallId = JUndefined, ctx_state = JUndefined, ctx_externalData = JUndefined,
               ctx_procId = (if truthy (cm_procId message) then cm_procId message
                             else ctx_procId ctx)\<rparr> tcs
       = (Returns result, logs, tcs')
   \<and> opt_prop result ''status'' \<noteq> JStr ''success''
   \<and> opt_prop result ''status'' \<noteq> JStr ''failure''
   \<and> opt_prop result ''status'' \<noteq> JStr ''error''"
  let ?hctx = "\<lparr>ctx_sessionId = JNum (if (case r_toolDef (resolveCommand pl reg parsed) of
                                          Some toolDef \<Rightarrow> localCommand toolDef | None \<Rightarrow> False)
                                      then 0 else currentSession),
               ctx_toolCallId = JUndefined, ctx_state = JUndefined, ctx_externalData = JUndefined,
               ctx_procId = (if truthy (cm_procId message) then cm_procId message
                             else ctx_procId ctx)\<rparr>"
  from a have r: "fromHost_response debugLog reg message cmd args ?hctx tcs =
          (\<lparr>resp_messageId = cm_messageId message, resp_success = False,
            resp_result =
              JStr (let output = join ((if debugLog
                          then [''[handleCommand] Executing handler for '' @ [CHR 0x22] @ cmd @ [CHR 0x22]]
                          else []) @ logs) [CHR 0x0A]
                    in if output \<noteq> [] then output
                       else ''Tool execution failed: No status returned''),
            resp_error = opt_prop result ''error'', resp_type = ''command_response''\<rparr>, tcs')"
    using fromHost_response_no_status[of reg cmd h args ?hctx tcs result logs tcs' debugLog message]
    by blast
  from a r show "handleCommand debugLog pl reg parsed message currentSession ctx tcs =
     (Responded
        \<lparr>resp_messageId = cm_messageId message, resp_success = False,
         resp_result =
           JStr (let output = join ((if debugLog
                       then [''[handleCommand] Executing handler for '' @ [CHR 0x22] @ cmd @ [CHR 0x22]]
                       else []) @ logs) [CHR 0x0A]
                 in if output \<noteq> [] then output
                    else ''Tool execution failed: No status returned''),
         resp_error = opt_prop result ''error'', resp_type = ''command_response''\<rparr>, tcs')"
    by (simp add: handleCommand_def Let_def split: if_splits)
qed

theorem forwarded_command_without_status_fails_witness:
  "handleCommand False [] [''ping'' \<mapsto> plain_handler [] JUndefined] (Some (''ping'', []))
      forwarded_ping 1 empty_ctx []
     = (Responded \<lparr>resp_messageId = JStr ''msg_1'', resp_success = False,
                   resp_result = JStr ''Tool execution failed: No status returned'',
                   resp_error = JUndefined, resp_type = ''command_response''\<rparr>, [])
   \<and> handleCommand False [] [''ping'' \<mapsto> plain_handler [''hello'', ''world''] (JNum 42)]
      (Some (''ping'', [])) forwarded_ping 1 empty_ctx []
     = (Responded \<lparr>resp_messageId = JStr ''msg_1'', resp_success = False,
                   resp_result = JStr (''hello'' @ [CHR 0x0A] @ ''world''),
                   resp_error = JUndefined, resp_type = ''command_response''\<rparr>, [])"
proof -
  note defs = resolveCommand_def has_def forwarded_ping_def plain_handler_def empty_ctx_def Let_def
  have 1: "handleCommand False [] [''ping'' \<mapsto> plain_handler [] JUndefined] (Some (''ping'', []))
      forwarded_ping 1 empty_ctx []
     = (Responded \<lparr>resp_messageId = JStr ''msg_1'', resp_success = False,
                   resp_result = JStr ''Tool execution failed: No status returned'',
                   resp_error = JUndefined, resp_type = ''command_response''\<rparr>, [])"
    using forwarded_command_without_status_fails[of forwarded_ping "Some (''ping'', [])" "(''ping'', [])"
            "[]" "[''ping'' \<mapsto> plain_handler [] JUndefined]" "''ping''" "ArgList []"
            "plain_handler [] JUndefined" 1 empty_ctx "[]" JUndefined "[]" "[]" False]
    by (simp add: defs)
  have 2: "handleCommand False [] [''ping'' \<mapsto> plain_handler [''hello'', ''world''] (JNum 42)]
      (Some (''ping'', [])) forwarded_ping 1 empty_ctx []
     = (Responded \<lparr>resp_messageId = JStr ''msg_1'', resp_success = False,
                   resp_result = JStr (''hello'' @ [CHR 0x0A] @ ''world''),
                   resp_error = JUndefined, resp_type = ''command_response''\<rparr>, [])"
    using forwarded_command_without_status_fails[of forwarded_ping "Some (''ping'', [])" "(''ping'', [])"
            "[]" "[''ping'' \<mapsto> plain_handler [''hello'', ''world''] (JNum 42)]" "''ping''" "ArgList []"
            "plain_handler [''hello'', ''world''] (JNum 42)" 1 empty_ctx "[]" "JNum 42"
            "[''hello'', ''world'']" "[]" False]
    by (simp add: defs)
  show ?thesis using 1 2 by blast
qed

lemma glue_Cons: "glue cmd (a # xs) = glue (cmd @ ''__'' @ a) xs"
  by (cases xs) (simp_all add: glue_def)

lemma upt_from_one: "[Suc 0 ..< Suc (Suc n)] = Suc 0 # map Suc [Suc 0 ..< Suc n]"
  by (simp add: upt_conv_Cons map_Suc_upt del: upt_Suc)

lemma registered_lengths_Cons:
  "registered_lengths reg cmd (a # as) =
     (if has reg (cmd @ ''__'' @ a) then [1] else [])
     @ map Suc (registered_lengths reg (cmd @ ''__'' @ a) as)"
proof -
  have "filter (\<lambda>k. has reg (glue cmd (take k (a # as)))) (map Suc [1 ..< Suc (length as)])
        = map Suc (filter (\<lambda>k. has reg (glue (cmd @ ''__'' @ a) (take k as))) [1 ..< Suc (length as)])"
    by (simp add: filter_map comp_def glue_Cons)
  moreover have "glue cmd (take 1 (a # as)) = cmd @ ''__'' @ a"
    by (simp add: glue_def)
  ultimately show ?thesis
    unfolding registered_lengths_def
    by (simp add: upt_from_one del: upt_Suc)
qed

lemma underscore_fallback_first:
  "underscore_fallback reg cmd args =
     (case registered_lengths reg cmd args of
        [] \<Rightarrow> None
      | k # ks \<Rightarrow> Some (glue cmd (take k args), drop k args))"
proof (induction args arbitrary: cmd)
  case Nil
  then show ?case by (simp add: registered_lengths_def)
next
  case (Cons a as)
  show ?case
  proof (cases "has reg (cmd @ ''__'' @ a)")
    case True
    then show ?thesis
      by (simp add: registered_lengths_Cons Let_def glue_def)
  next
    case False
    then show ?thesis
      using Cons.IH[of "cmd @ ''__'' @ a"]
      by (simp add: registered_lengths_Cons Let_def glue_Cons split: list.splits)
  qed
qed

lemma registered_lengths_ascending:
  "registered_lengths reg cmd args = k # ks \<Longrightarrow> \<forall>j \<in> set ks. k < j"
proof -
  assume a: "registered_lengths reg cmd args = k # ks"
  have "sorted_wrt (<) (registered_lengths reg cmd args)"
    unfolding registered_lengths_def by (rule sorted_wrt_filter) (rule sorted_wrt_upt)
  with a show ?thesis by simp
qed

lemma try_aliases_first_hit: "try_aliases tls allParts = first_hit tls allParts"
proof (induction tls)
  case Nil
  then show ?case by (simp add: first_hit_def)
next
  case (Cons t tls)
  then show ?case
    by (simp add: first_hit_def alias_hit_def split: option.splits)
qed

lemma map_filter_append:
  "List.map_filter f (xs @ ys) = List.map_filter f xs @ List.map_filter f ys"
  by (simp add: List.map_filter_def)

lemma first_hit_append:
  "first_hit (xs @ ys) allParts =
     (case first_hit xs allParts of Some m \<Rightarrow> Some m | None \<Rightarrow> first_hit ys allParts)"
  by (simp add: first_hit_def map_filter_append split: list.splits)

lemma scan_plugins_unregistered:
  "\<not> has reg cmd \<Longrightarrow> scan_plugins reg pl allParts cmd = first_hit (concat (array_defs pl)) allParts"
proof (induction pl)
  case Nil
  then show ?case by (simp add: array_defs_def first_hit_def)
next
  case (Cons d pl)
  then show ?case
    by (cases d)
       (simp_all add: array_defs_def try_aliases_first_hit first_hit_append
             split: option.splits)
qed

lemma scan_plugins_registered:
  "has reg cmd \<Longrightarrow>
     scan_plugins reg pl allParts cmd =
       (case array_defs pl of [] \<Rightarrow> None | d # ds \<Rightarrow> first_hit d allParts)"
proof (induction pl)
  case Nil
  then show ?case by (simp add: array_defs_def)
next
  case (Cons d pl)
  then show ?case
    by (cases d)
       (simp_all add: array_defs_def try_aliases_first_hit
             split: option.splits)
qed

text \<open>
C7, as amended. Command resolution is a function of the argv, the plugins and the
  registry. The alias scan goes through the plugins in registration order and takes the
  first alias match, but it ends after the first plugin with an array definition when the
  command token is a registered name; so for an unregistered token it is the first match
  of all tools, and for a registered token the first match of that first plugin only. When
  no alias matched and the token is not registered, the token is glued with \<open>__\<close> to its
  first \<open>k\<close> arguments for the smallest \<open>k \<ge> 1\<close> that gives a registered name (the first hit,
  the shortest such name), the remaining arguments are the positional ones; when no \<open>k\<close>
  does, the command is reported as not found.
\<close>

theorem resolveCommand_first_hit:
  "(\<not> has reg cmd0 \<longrightarrow>
      scan_plugins reg pl (cmd0 # args0) cmd0 = first_hit (concat (array_defs pl)) (cmd0 # args0))
   \<and> (has reg cmd0 \<longrightarrow>
      scan_plugins reg pl (cmd0 # args0) cmd0 =
        (case array_defs pl of [] \<Rightarrow> None | d # ds \<Rightarrow> first_hit d (cmd0 # args0)))
   \<and> (scan_plugins reg pl (cmd0 # args0) cmd0 = Some m \<and> has reg (am_name m) \<longrightarrow>
      r_cmd (resolveCommand pl reg (Some (cmd0, args0))) = Some (am_name m)
      \<and> r_args (resolveCommand pl reg (Some (cmd0, args0))) = Some (am_args m)
      \<and> r_error (resolveCommand pl reg (Some (cmd0, args0))) = None)
   \<and> (scan_plugins reg pl (cmd0 # args0) cmd0 = None \<and> has reg cmd0 \<longrightarrow>
      r_cmd (resolveCommand pl reg (Some (cmd0, args0))) = Some cmd0
      \<and> r_args (resolveCommand pl reg (Some (cmd0, args0))) = Some (ArgList args0)
      \<and> r_error (resolveCommand pl reg (Some (cmd0, args0))) = None)
   \<and> (scan_plugins reg pl (cmd0 # args0) cmd0 = None \<and> \<not> has reg cmd0 \<longrightarrow>
      (case registered_lengths reg cmd0 args0 of
         [] \<Rightarrow>
           r_cmd (resolveCommand pl reg (Some (cmd0, args0))) = Some cmd0
           \<and> r_args (resolveCommand pl reg (Some (cmd0, args0))) = Some (ArgList args0)
           \<and> r_error (resolveCommand pl reg (Some (cmd0, args0)))
               = Some (''Command not found: '' @ cmd0)
       | k # ks \<Rightarrow>
           r_cmd (resolveCommand pl reg (Some (cmd0, args0))) = Some (glue cmd0 (take k args0))
           \<and> r_args (resolveCommand pl reg (Some (cmd0, args0))) = Some (ArgList (drop k args0))
           \<and> r_error (resolveCommand pl reg (Some (cmd0, args0))) = None
           \<and> (\<forall>j \<in> set ks. k < j)))"
proof (intro conjI impI)
  assume "\<not> has reg cmd0"
  then show "scan_plugins reg pl (cmd0 # args0) cmd0 = first_hit (concat (array_defs pl)) (cmd0 # args0)"
    by (rule scan_plugins_unregistered)
next
  assume "has reg cmd0"
  then show "scan_plugins reg pl (cmd0 # args0) cmd0 =
        (case array_defs pl of [] \<Rightarrow> None | d # ds \<Rightarrow> first_hit d (cmd0 # args0))"
    by (rule scan_plugins_registered)
next
  assume a: "scan_plugins reg pl (cmd0 # args0) cmd0 = Some m \<and> has reg (am_name m)"
  then show "r_cmd (resolveCommand pl reg (Some (cmd0, args0))) = Some (am_name m)"
    and "r_args (resolveCommand pl reg (Some (cmd0, args0))) = Some (am_args m)"
    and "r_error (resolveCommand pl reg (Some (cmd0, args0))) = None"
    by (simp_all add: resolveCommand_def Let_def has_def split: option.splits)
next
  assume a: "scan_plugins reg pl (cmd0 # args0) cmd0 = None \<and> has reg cmd0"
  then show "r_cmd (resolveCommand pl reg (Some (cmd0, args0))) = Some cmd0"
    and "r_args (resolveCommand pl reg (Some (cmd0, args0))) = Some (ArgList args0)"
    and "r_error (resolveCommand pl reg (Some (cmd0, args0))) = None"
    by (simp_all add: resolveCommand_def Let_def has_def split: option.splits)
next
  assume a: "scan_plugins reg pl (cmd0 # args0) cmd0 = None \<and> \<not> has reg cmd0"
  show "case registered_lengths reg cmd0 args0 of
         [] \<Rightarrow>
           r_cmd (resolveCommand pl reg (Some (cmd0, args0))) = Some cmd0
           \<and> r_args (resolveCommand pl reg (Some (cmd0, args0))) = Some (ArgList args0)
           \<and> r_error (resolveCommand pl reg (Some (cmd0, args0)))
               = Some (''Command not found: '' @ cmd0)
       | k # ks \<Rightarrow>
           r_cmd (resolveCommand pl reg (Some (cmd0, args0))) = Some (glue cmd0 (take k args0))
           \<and> r_args (resolveCommand pl reg (Some (cmd0, args0))) = Some (ArgList (drop k args0))
           \<and> r_error (resolveCommand pl reg (Some (cmd0, args0))) = None
           \<and> (\<forall>j \<in> set ks. k < j)"
  proof (cases "registered_lengths reg cmd0 args0")
    case Nil
    with a show ?thesis
      by (simp add: resolveCommand_def Let_def underscore_fallback_first has_def
               split: option.splits)
  next
    case (Cons k ks)
    then have "k \<in> set (registered_lengths reg cmd0 args0)" by simp
    then have h: "has reg (glue cmd0 (take k args0))" by (simp add: registered_lengths_def)
    from Cons a h registered_lengths_ascending[OF Cons] show ?thesis
      by (simp add: resolveCommand_def Let_def underscore_fallback_first has_def
               split: option.splits)
  qed
qed

text \<open>
C7 as stated fails twice. With \<open>shell__exec\<close> and \<open>shell__exec__foo\<close> both registered,
  \<open>shell exec foo\<close> resolves to \<open>shell__exec\<close> with the argument \<open>foo\<close>, not to the longest
  registered name. With \<open>pty\<close> registered and the alias of \<open>shell__pty__list\<close> declared by
  the second plugin, \<open>pty list\<close> resolves to \<open>pty\<close>: the scan ends after the first plugin
  although the alias matches.
\<close>

theorem resolveCommand_longest_counterexample:
  "r_cmd (resolveCommand [] glue_registry (Some (''shell'', [''exec'', ''foo''])))
     = Some ''shell__exec''
   \<and> r_args (resolveCommand [] glue_registry (Some (''shell'', [''exec'', ''foo''])))
     = Some (ArgList [''foo''])
   \<and> has glue_registry (glue ''shell'' [''exec'', ''foo''])
   \<and> glue ''shell'' [''exec'', ''foo''] = ''shell__exec__foo''
   \<and> r_cmd (resolveCommand example_plugins pty_registry (Some (''pty'', [''list''])))
     = Some ''pty''
   \<and> first_hit (concat (array_defs example_plugins)) [''pty'', ''list'']
     = Some \<lparr>am_name = ''shell__pty__list'', am_args = ArgObj (JObj [])\<rparr>"
  by code_simp

theorem resolveCommand_first_hit_witness:
  "r_cmd (resolveCommand [] glue_registry (Some (''shell'', [''exec'', ''foo''])))
     = Some ''shell__exec''
   \<and> r_args (resolveCommand [] glue_registry (Some (''shell'', [''exec'', ''foo''])))
     = Some (ArgList [''foo''])
   \<and> registered_lengths glue_registry ''shell'' [''exec'', ''foo''] = [1, 2]
   \<and> r_cmd (resolveCommand example_plugins glue_registry (Some (''pty'', [''ls''])))
     = Some ''shell__pty__list''
   \<and> r_cmd (resolveCommand example_plugins pty_registry (Some (''pty'', [''list''])))
     = Some ''pty''
   \<and> r_error (resolveCommand example_plugins glue_registry (Some (''nothing'', [''here''])))
     = Some ''Command not found: nothing''"
proof -
  have l: "registered_lengths glue_registry ''shell'' [''exec'', ''foo''] = [1, 2]" by code_simp
  have n: "\<not> has glue_registry ''shell''" by code_simp
  have s: "scan_plugins glue_registry [] [''shell'', ''exec'', ''foo''] ''shell'' = None" by simp
  have g: "glue ''shell'' (take 1 [''exec'', ''foo'']) = ''shell__exec''" by code_simp
  from resolveCommand_first_hit[of glue_registry "''shell''" "[]" "[''exec'', ''foo'']"] l n s g
  have 1: "r_cmd (resolveCommand [] glue_registry (Some (''shell'', [''exec'', ''foo''])))
             = Some ''shell__exec''
           \<and> r_args (resolveCommand [] glue_registry (Some (''shell'', [''exec'', ''foo''])))
             = Some (ArgList [''foo''])"
    by simp
  have n2: "\<not> has glue_registry ''pty''" by code_simp
  have f2: "first_hit (concat (array_defs example_plugins)) [''pty'', ''ls'']
            = Some \<lparr>am_name = ''shell__pty__list'', am_args = ArgObj (JObj [])\<rparr>" by code_simp
  have h2: "has pty_registry ''shell__pty__list''" by code_simp
  have 2: "r_cmd (resolveCommand example_plugins pty_registry (Some (''pty'', [''list'']))) = Some ''pty''"
  proof -
    have hp: "has pty_registry ''pty''" by code_simp
    have ad: "array_defs example_plugins = [[example_tool ''core__help'' None],
                [example_tool ''shell__pty__list'' (Some pty_list_alias)]]"
      by (simp add: array_defs_def example_plugins_def)
    have fh: "first_hit [example_tool ''core__help'' None] [''pty'', ''list''] = None" by code_simp
    from resolveCommand_first_hit[of pty_registry "''pty''" example_plugins "[''list'']"] hp ad fh
    show ?thesis by simp
  qed
  have 3: "r_cmd (resolveCommand example_plugins glue_registry (Some (''pty'', [''ls''])))
             = Some ''shell__pty__list''"
    by code_simp
  have 4: "r_error (resolveCommand example_plugins glue_registry (Some (''nothing'', [''here''])))
     = Some ''Command not found: nothing''"
  proof -
    have a: "\<not> has glue_registry ''nothing''" by code_simp
    have b: "first_hit (concat (array_defs example_plugins)) [''nothing'', ''here''] = None" by code_simp
    have c: "registered_lengths glue_registry ''nothing'' [''here''] = []" by code_simp
    from resolveCommand_first_hit[of glue_registry "''nothing''" example_plugins "[''here'']"] a b c
    show ?thesis by simp
  qed
  show ?thesis using 1 2 3 4 l by blast
qed


section \<open>Properties of the allowlist and the shell tool\<close>

lemma rule_loop_step:
  "rule_loop rx command full ((p, v) # al) a0 m0 = (JBool False, m) \<Longrightarrow> a0 \<noteq> JBool False \<Longrightarrow>
     (m = Some p \<and> matchesPattern rx command p)
     \<or> (\<exists>a1 m1. a1 \<noteq> JBool False \<and> rule_loop rx command full al a1 m1 = (JBool False, m))"
  by (auto simp: Let_def split: if_splits)

lemma rule_loop_denied:
  "rule_loop rx command full al a0 m0 = (JBool False, m) \<Longrightarrow> a0 \<noteq> JBool False \<Longrightarrow>
     \<exists>p v. m = Some p \<and> (p, v) \<in> set al \<and> matchesPattern rx command p"
proof (induction al arbitrary: a0 m0)
  case Nil
  then show ?case by simp
next
  case (Cons pv al)
  obtain p v where pv: "pv = (p, v)" by (cases pv)
  from rule_loop_step[of rx command full p v al a0 m0 m] Cons.prems pv
  consider (here) "m = Some p" "matchesPattern rx command p"
    | (later) a1 m1 where "a1 \<noteq> JBool False" "rule_loop rx command full al a1 m1 = (JBool False, m)"
    by blast
  then show ?case
  proof cases
    case here
    then show ?thesis using pv by auto
  next
    case later
    from Cons.IH[OF later(2) later(1)] show ?thesis by auto
  qed
qed

lemma checkSingleCommand_denied:
  "sc_denied (checkSingleCommand rx command al full) \<Longrightarrow>
     \<exists>p v. (p, v) \<in> set al \<and> matchesPattern rx command p
           \<and> sc_matchedRule (checkSingleCommand rx command al full) = Some p
           \<and> sc_reason (checkSingleCommand rx command al full) = ''Denied by rule: '' @ p"
proof -
  assume d: "sc_denied (checkSingleCommand rx command al full)"
  obtain a m where r: "rule_loop rx command full al JNull None = (a, m)"
    by (cases "rule_loop rx command full al JNull None")
  with d have a: "a = JBool False" by (simp add: checkSingleCommand_def)
  from rule_loop_denied[of rx command full al JNull None m] r a
  obtain p v where "m = Some p" "(p, v) \<in> set al" "matchesPattern rx command p" by auto
  with r a show ?thesis by (auto simp: checkSingleCommand_def rule_text_def)
qed

lemma checkCommand_denied_reason:
  assumes "sc_denied (fullLineCheck (checkCommand rx line al))
           \<or> list_ex sc_denied (subCommandChecks (checkCommand rx line al))"
  shows "\<not> approved (checkCommand rx line al)
         \<and> (\<exists>p v. (p, v) \<in> set al
                \<and> reason (checkCommand rx line al) = ''Command denied: Denied by rule: '' @ p)"
proof (cases "sc_denied (checkSingleCommand rx line al True)")
  case True
  from checkSingleCommand_denied[OF True] obtain p v where
    "(p, v) \<in> set al" "sc_reason (checkSingleCommand rx line al True) = ''Denied by rule: '' @ p"
    by blast
  with True show ?thesis by (auto simp: checkCommand_def Let_def)
next
  case False
  with assms have ex: "list_ex sc_denied (map (\<lambda>cmd. checkSingleCommand rx cmd al False) (parseCommandLine line))"
    by (simp add: checkCommand_def Let_def)
  then obtain c where f: "find sc_denied (map (\<lambda>cmd. checkSingleCommand rx cmd al False) (parseCommandLine line)) = Some c"
    by (cases "find sc_denied (map (\<lambda>cmd. checkSingleCommand rx cmd al False) (parseCommandLine line))")
       (auto simp: find_None_iff list_ex_iff)
  then have "sc_denied c" and "c \<in> set (map (\<lambda>cmd. checkSingleCommand rx cmd al False) (parseCommandLine line))"
    by (auto simp: find_Some_iff)
  then obtain cmd where c: "c = checkSingleCommand rx cmd al False" by auto
  with \<open>sc_denied c\<close> checkSingleCommand_denied[of rx cmd al False] obtain p v where
    "(p, v) \<in> set al" "sc_reason c = ''Denied by rule: '' @ p" by blast
  with False ex f show ?thesis by (auto simp: checkCommand_def Let_def)
qed

text \<open>
C6. \<open>shell__execute\<close> in phase \<open>initial\<close> with a session context: when the allowlist
  check does not approve the command and the configuration is unattended, the tool returns
  FAILURE. Its error text holds the reason of the check and, when the session has an
  allowlist with keys of value \<open>true\<close>, lists them. Nothing is executed and no
  \<open>approval_request\<close> is routed (the only path on which the session is paused), and when
  the check was a denial the reason names the denying rule of the allowlist.
\<close>

theorem unattended_rejects_without_approval_request:
  "js_or (opt_prop (js_or (ctx_state ctx) (JObj [])) ''phase'') (JStr ''initial'') = JStr ''initial''
   \<and> (case args of ArgList parts \<Rightarrow> JStr (join parts '' '') | ArgObj v \<Rightarrow> opt_prop v ''command'')
       = JStr commandLine
   \<and> truthy (ctx_sessionId ctx)
   \<and> env_unattended env
   \<and> check = checkCommand (env_rx env) commandLine
               (case env_sessionAllowlist env of Some sessionAllowlist \<Rightarrow> sessionAllowlist
                | None \<Rightarrow> env_allowlist env)
   \<and> \<not> approved check
   \<longrightarrow>
   executeShell env args ctx =
     (Returns (failure_result
        (''Command execution rejected by unattended mode security policy. Reason: ''
         @ reason check @ ''.''
         @ (case env_sessionAllowlist env of
              Some sessionAllowlist \<Rightarrow>
                (if map fst (filter (\<lambda>(k, v). v = JBool True) sessionAllowlist) \<noteq> []
                 then '' Allowed commands: ''
                      @ join (map fst (filter (\<lambda>(k, v). v = JBool True) sessionAllowlist)) '', ''
                      @ ''.''
                 else [])
            | None \<Rightarrow> [])
         @ '' Enable human approval by setting unattended to false.'')), [])
   \<and> (sc_denied (fullLineCheck check) \<or> list_ex sc_denied (subCommandChecks check) \<longrightarrow>
        (\<exists>p v. (p, v) \<in> set (case env_sessionAllowlist env of
                                 Some sessionAllowlist \<Rightarrow> sessionAllowlist
                               | None \<Rightarrow> env_allowlist env)
               \<and> reason check = ''Command denied: Denied by rule: '' @ p))"
proof (intro impI conjI)
  assume a: "js_or (opt_prop (js_or (ctx_state ctx) (JObj [])) ''phase'') (JStr ''initial'') = JStr ''initial''
   \<and> (case args of ArgList parts \<Rightarrow> JStr (join parts '' '') | ArgObj v \<Rightarrow> opt_prop v ''command'')
       = JStr commandLine
   \<and> truthy (ctx_sessionId ctx)
   \<and> env_unattended env
   \<and> check = checkCommand (env_rx env) commandLine
               (case env_sessionAllowlist env of Some sessionAllowlist \<Rightarrow> sessionAllowlist
                | None \<Rightarrow> env_allowlist env)
   \<and> \<not> approved check"
  then show "executeShell env args ctx =
     (Returns (failure_result
        (''Command execution rejected by unattended mode security policy. Reason: ''
         @ reason check @ ''.''
         @ (case env_sessionAllowlist env of
              Some sessionAllowlist \<Rightarrow>
                (if map fst (filter (\<lambda>(k, v). v = JBool True) sessionAllowlist) \<noteq> []
                 then '' Allowed commands: ''
                      @ join (map fst (filter (\<lambda>(k, v). v = JBool True) sessionAllowlist)) '', ''
                      @ ''.''
                 else [])
            | None \<Rightarrow> [])
         @ '' Enable human approval by setting unattended to false.'')), [])"
    by (clarsimp simp: executeShell_def Let_def split: option.splits)
  assume "sc_denied (fullLineCheck check) \<or> list_ex sc_denied (subCommandChecks check)"
  with a checkCommand_denied_reason[of "env_rx env" commandLine
         "case env_sessionAllowlist env of Some sessionAllowlist \<Rightarrow> sessionAllowlist
          | None \<Rightarrow> env_allowlist env"]
  show "\<exists>p v. (p, v) \<in> set (case env_sessionAllowlist env of
                                 Some sessionAllowlist \<Rightarrow> sessionAllowlist
                               | None \<Rightarrow> env_allowlist env)
               \<and> reason check = ''Command denied: Denied by rule: '' @ p"
    by blast
qed

theorem unattended_rejects_without_approval_request_witness:
  "executeShell (unattended_env None) (ArgObj (JObj [(''command'', JStr ''rm -rf /'')])) session_ctx
     = (Returns (failure_result
          ''Command execution rejected by unattended mode security policy. Reason: Command denied: Denied by rule: rm. Enable human approval by setting unattended to false.''),
        [])
   \<and> executeShell (unattended_env (Some [(''ls'', JBool True), (''rm'', JBool False), (''cat'', JBool True)]))
        (ArgList [''git'', ''push'']) session_ctx
     = (Returns (failure_result
          ''Command execution rejected by unattended mode security policy. Reason: No matching approval rule found - requires explicit approval. Allowed commands: ls, cat. Enable human approval by setting unattended to false.''),
        [])"
proof -
  let ?al = "[(''echo'', JBool True), (''rm'', JBool False)]"
  let ?sal = "[(''ls'', JBool True), (''rm'', JBool False), (''cat'', JBool True)]"
  have r1: "reason (checkCommand no_regexp ''rm -rf /'' ?al) = ''Command denied: Denied by rule: rm''"
    by code_simp
  have n1: "\<not> approved (checkCommand no_regexp ''rm -rf /'' ?al)" by code_simp
  have r2: "reason (checkCommand no_regexp ''git push'' ?sal)
              = ''No matching approval rule found - requires explicit approval''"
    by code_simp
  have n2: "\<not> approved (checkCommand no_regexp ''git push'' ?sal)" by code_simp
  have 1: "executeShell (unattended_env None) (ArgObj (JObj [(''command'', JStr ''rm -rf /'')])) session_ctx
     = (Returns (failure_result
          ''Command execution rejected by unattended mode security policy. Reason: Command denied: Denied by rule: rm. Enable human approval by setting unattended to false.''),
        [])"
    using unattended_rejects_without_approval_request[of session_ctx
            "ArgObj (JObj [(''command'', JStr ''rm -rf /'')])" "''rm -rf /''" "unattended_env None"
            "checkCommand no_regexp ''rm -rf /'' ?al"] r1 n1
    by (simp add: unattended_env_def session_ctx_def js_or_def)
  have 2: "executeShell (unattended_env (Some ?sal)) (ArgList [''git'', ''push'']) session_ctx
     = (Returns (failure_result
          ''Command execution rejected by unattended mode security policy. Reason: No matching approval rule found - requires explicit approval. Allowed commands: ls, cat. Enable human approval by setting unattended to false.''),
        [])"
    using unattended_rejects_without_approval_request[of session_ctx
            "ArgList [''git'', ''push'']" "''git push''" "unattended_env (Some ?sal)"
            "checkCommand no_regexp ''git push'' ?sal"] r2 n2
    by (simp add: unattended_env_def session_ctx_def js_or_def)
  show ?thesis using 1 2 by blast
qed

text \<open>
C4, at the input where the code departs from it. The allowlist holds the one plain rule
  \<open>echo: true\<close> and no rule with \<open>matchCommandLine\<close>. The line \<open>echo hi; shutdown\<close> parses
  into \<open>echo hi\<close> and \<open>shutdown\<close>; no rule approves or denies \<open>shutdown\<close>, yet the line is
  approved, as the full-line check applies the plain rule to the whole line.
\<close>

theorem plain_rule_approves_whole_line:
  "approved (checkCommand no_regexp ''echo hi; shutdown'' [(''echo'', JBool True)])
   \<and> reason (checkCommand no_regexp ''echo hi; shutdown'' [(''echo'', JBool True)])
       = ''Full command line approved: echo''
   \<and> subCommands (checkCommand no_regexp ''echo hi; shutdown'' [(''echo'', JBool True)])
       = [''echo hi'', ''shutdown'']
   \<and> \<not> sc_approved (checkSingleCommand no_regexp ''shutdown'' [(''echo'', JBool True)] False)
   \<and> \<not> sc_denied (checkSingleCommand no_regexp ''shutdown'' [(''echo'', JBool True)] False)
   \<and> \<not> list_ex (\<lambda>(p, v). truthy (opt_prop v ''matchCommandLine'')) [(''echo'', JBool True)]"
  by code_simp


section \<open>Properties of the agent loop\<close>

lemma merge_step_eq:
  "merge_step c (acc, calls, fr) =
     (acc @ (case ch_content c of Some s \<Rightarrow> s | None \<Rightarrow> []),
      calls @ (case ch_tool_calls c of Some t \<Rightarrow> t | None \<Rightarrow> []),
      if ch_finish_reason c = ''tool_calls'' then ''tool_calls'' else fr)"
  by (simp add: merge_step_def split: option.splits)

lemma merge_fold:
  "fold merge_step cs (acc, calls, fr) =
     (acc @ concat (map (\<lambda>c. case ch_content c of Some s \<Rightarrow> s | None \<Rightarrow> []) cs),
      calls @ concat (map (\<lambda>c. case ch_tool_calls c of Some t \<Rightarrow> t | None \<Rightarrow> []) cs),
      if list_ex (\<lambda>c. ch_finish_reason c = ''tool_calls'') cs then ''tool_calls'' else fr)"
proof (induction cs arbitrary: acc calls fr)
  case Nil
  then show ?case by simp
next
  case (Cons c cs)
  show ?case
    by (simp add: merge_step_eq Cons.IH)
qed

text \<open>
  What the loop of the agent computes for any list of choices.
\<close>

lemma merge_choices_result:
  "content (merge_choices cs now)
     = Some (concat (map (\<lambda>c. case ch_content c of Some s \<Rightarrow> s | None \<Rightarrow> []) cs))
   \<and> tool_calls (merge_choices cs now)
     = Some (concat (map (\<lambda>c. case ch_tool_calls c of Some t \<Rightarrow> t | None \<Rightarrow> []) cs))
   \<and> finish_reason (merge_choices cs now)
     = Some (if list_ex (\<lambda>c. ch_finish_reason c = ''tool_calls'') cs then ''tool_calls'' else ''stop'')
   \<and> role (merge_choices cs now) = ''assistant''"
  by (simp add: merge_choices_def merge_fold)

text \<open>
  C2, at the input where the code departs from it. The claim: the merged content and tool
  calls are the in-order concatenations, and the merged finish reason is \<open>tool_calls\<close> if
  any choice has it, else the last choice's finish reason. Of two choices without tool calls
  the last one ends with \<open>length\<close>: the content is merged to \<open>Pong\<close>, but the merged
  finish reason is \<open>stop\<close>, where the loop of the command line client gives \<open>length\<close>.
\<close>

theorem merge_loses_last_finish_reason:
  "content (merge_choices truncated_choices ''now'') = Some ''Pong''
   \<and> tool_calls (merge_choices truncated_choices ''now'') = Some []
   \<and> ch_finish_reason (last truncated_choices) = ''length''
   \<and> finish_reason (merge_choices truncated_choices ''now'') = Some ''stop''
   \<and> finish_reason (cli_merge_choices truncated_choices ''now'') = Some ''length''"
  by code_simp

lemma after_merge_final_answer_throws:
  "tool_calls m = Some [] \<or> tool_calls m = None \<Longrightarrow>
     fst (after_merge env loop st s m r) = Threw ''finishReason is not defined''
     \<and> fst (snd (after_merge env loop st s m r)) = loop"
  by (auto simp: after_merge_def Let_def finishReason_at_line_459_def)

lemma run_ticks_stopped: "\<not> isRunning (fst ls) \<Longrightarrow> run_ticks env n ls = ls"
  by (cases n; cases ls) simp_all

lemma run_ticks_fixpoint:
  "isRunning (fst ls) \<Longrightarrow> tick env ls = (outcome, ls) \<Longrightarrow> run_ticks env n ls = ls"
proof -
  assume r: "isRunning (fst ls)" and t: "tick env ls = (outcome, ls)"
  obtain loop st where ls: "ls = (loop, st)" by (cases ls)
  show ?thesis
  proof (induction n)
    case 0
    then show ?case by simp
  next
    case (Suc n)
    then show ?case using r t ls by simp
  qed
qed

lemma run_ticks_Suc: "run_ticks env (Suc n) ls = run_ticks env n (run_ticks env (Suc 0) ls)"
proof -
  obtain loop st where ls: "ls = (loop, st)" by (cases ls)
  show ?thesis
  proof (cases "isRunning loop")
    case True
    then show ?thesis using ls by (simp split: prod.splits)
  next
    case False
    then show ?thesis using ls run_ticks_stopped[of "(loop, st)" env n] by simp
  qed
qed

lemma echo_first_tick:
  "fst (tick echo_env echo_start) = Threw ''finishReason is not defined''"
  by code_simp

lemma echo_after_one:
  "isRunning (fst (run_ticks echo_env (Suc 0) echo_start))
   \<and> disk_status (snd (run_ticks echo_env (Suc 0) echo_start)) ''1'' = Some ''running''
   \<and> map content (disk_messages (snd (run_ticks echo_env (Suc 0) echo_start)) ''1'')
       = [Some ''Ping'', Some ''Pong'']"
  by code_simp

lemma echo_idle:
  "tick echo_env (run_ticks echo_env (Suc 0) echo_start)
     = (Returned, run_ticks echo_env (Suc 0) echo_start)"
  by code_simp

lemma echo_start_state:
  "isRunning (fst echo_start) \<and> disk_status (snd echo_start) ''1'' = Some ''running''"
  by code_simp

lemma merge_choices_example:
  "content (merge_choices example_choices ''now'') = Some ''Hello world''
   \<and> tool_calls (merge_choices example_choices ''now'')
       = Some [example_call ''a'', example_call ''b'', example_call ''c'']
   \<and> finish_reason (merge_choices example_choices ''now'') = Some ''tool_calls''"
  using merge_choices_result[of example_choices "''now''"]
  by (simp add: example_choices_def)

text \<open>
C1, at the input where the code departs from it (scenario S1). The session is started and
  is running; the provider answers \<open>Ping\<close> with the single choice \<open>Pong\<close>, finish reason
  \<open>stop\<close>. The first tick appends the assistant message and saves it, then throws the
  ReferenceError of line 459 before \<open>transition('complete')\<close>. After any number of rounds
  of the loop it is still running, the session file still says \<open>running\<close>, and the log is
  \<open>Ping\<close>, \<open>Pong\<close>.
\<close>

theorem echo_session_never_completes:
  "disk_status (snd echo_start) ''1'' = Some ''running''
   \<and> fst (tick echo_env echo_start) = Threw ''finishReason is not defined''
   \<and> (\<forall>n. isRunning (fst (run_ticks echo_env n echo_start)))
   \<and> (\<forall>n. disk_status (snd (run_ticks echo_env n echo_start)) ''1'' = Some ''running'')
   \<and> (\<forall>n. map content (disk_messages (snd (run_ticks echo_env (Suc n) echo_start)) ''1'')
            = [Some ''Ping'', Some ''Pong''])"
proof -
  let ?S = "run_ticks echo_env (Suc 0) echo_start"
  have run: "isRunning (fst ?S)" using echo_after_one by blast
  have later: "run_ticks echo_env (Suc n) echo_start = ?S" for n
    using run_ticks_Suc[of echo_env n echo_start] run_ticks_fixpoint[OF run echo_idle, of n]
    by simp
  have a: "isRunning (fst (run_ticks echo_env n echo_start))" for n
  proof (cases n)
    case 0
    then show ?thesis using echo_start_state by simp
  next
    case (Suc m)
    then show ?thesis using later[of m] run by simp
  qed
  have b: "disk_status (snd (run_ticks echo_env n echo_start)) ''1'' = Some ''running''" for n
  proof (cases n)
    case 0
    then show ?thesis using echo_start_state by simp
  next
    case (Suc m)
    then show ?thesis using later[of m] echo_after_one by simp
  qed
  have c: "map content (disk_messages (snd (run_ticks echo_env (Suc n) echo_start)) ''1'')
            = [Some ''Ping'', Some ''Pong'']" for n
    using later[of n] echo_after_one by simp
  show ?thesis using echo_start_state echo_first_tick a b c by blast
qed

text \<open>
  In general: whatever the provider and the tools answer, a tick that finds the session in
  a status other than stopped, success and error leaves \<open>isRunning\<close> set, since the
  branch that would clear it after \<open>transition('complete')\<close> is never reached.
\<close>

lemma after_merge_keeps_running:
  "isRunning (fst (snd (after_merge env loop st s m r))) = isRunning loop"
  by (simp add: after_merge_def Let_def finishReason_at_line_459_def
           split: prod.splits sum.splits)

lemma tick_keeps_running:
  assumes "isRunning loop"
      and "SessionModel_load (sessionId loop) (loadAll fs c, fs) = (Some s, st1)"
      and "status (metadata s) \<noteq> Some STOPPED" "status (metadata s) \<noteq> Some SUCCESS"
          "status (metadata s) \<noteq> Some ERROR"
  shows "isRunning (fst (snd (tick env (loop, (c, fs)))))"
  using assms
  by (simp add: tick_def Let_def after_merge_keeps_running
           split: prod.splits option.splits sum.splits)

end
